theory Spec2Isabelle
  imports Main "HOL-Library.Sublist"
begin

section \<open>JavaScript values and \<open>JSON.stringify\<close>\<close>

text \<open>
  The middleware of \<^verbatim>\<open>src/index.ts\<close> receives free-form option objects
  (\<^verbatim>\<open>Record<string, any>\<close>) and hands them to \<^verbatim>\<open>JSON.stringify\<close>.
  A JavaScript value is modelled as a finite tree. An object is the list of its own
  enumerable properties in enumeration order, an array the list of its elements.
  \<open>JCyclic\<close> stands for a property or element whose value is an object that is already
  being serialised further up (a circular reference): this is the only way in which
  sharing is visible to \<^verbatim>\<open>JSON.stringify\<close>, which unfolds every other
  shared object as a tree. Numbers are restricted to integers, and a string is a list
  of 8-bit characters. Values with a \<^verbatim>\<open>toJSON\<close> method, accessors and symbols
  are not represented.
\<close>

datatype jsval =
    JUndefined
  | JNull
  | JBool bool
  | JNum int
  | JStr string
  | JFunction
  | JBigInt int
  | JCyclic
  | JArr "jsval list"
  | JObj "(string \<times> jsval) list"

type_synonym jsobject = "(string \<times> jsval) list"

datatype js_error = TypeError | Error string

text \<open>\<^verbatim>\<open>Array.prototype.join\<close> on an array of strings.\<close>

fun join :: "string \<Rightarrow> string list \<Rightarrow> string" where
  "join sep [] = []"
| "join sep [x] = x"
| "join sep (x # y # ys) = x @ sep @ join sep (y # ys)"

text \<open>Decimal rendering of an integer-valued number (\<^verbatim>\<open>Number::toString\<close>).\<close>

definition digit :: "nat \<Rightarrow> char" where
  "digit n = ''0123456789abcdef'' ! (n mod 16)"

function show_nat :: "nat \<Rightarrow> string" where
  "show_nat n = (if n < 10 then [digit n] else show_nat (n div 10) @ [digit (n mod 10)])"
  by pat_completeness auto
termination
  by (relation "measure (\<lambda>n. n)") auto

definition show_int :: "int \<Rightarrow> string" where
  "show_int i = (if i < 0 then CHR ''-'' # show_nat (nat (- i)) else show_nat (nat i))"

text \<open>
  \<^verbatim>\<open>QuoteJSONString\<close> of ECMA-262: the double quote and the backslash are escaped,
  control characters below U+0020 are written with their short escape or as
  \<^verbatim>\<open>\u00XX\<close>, every other character is kept.
\<close>

definition escape_char :: "char \<Rightarrow> string" where
  "escape_char c =
     (if c = CHR 0x22 then [CHR 0x5C, CHR 0x22]
      else if c = CHR 0x5C then [CHR 0x5C, CHR 0x5C]
      else if c = CHR 0x08 then [CHR 0x5C, CHR ''b'']
      else if c = CHR 0x0C then [CHR 0x5C, CHR ''f'']
      else if c = CHR 0x0A then [CHR 0x5C, CHR ''n'']
      else if c = CHR 0x0D then [CHR 0x5C, CHR ''r'']
      else if c = CHR 0x09 then [CHR 0x5C, CHR ''t'']
      else if (of_char c :: nat) < 32
        then [CHR 0x5C, CHR ''u'', CHR ''0'', CHR ''0'',
              digit (of_char c div 16), digit (of_char c mod 16)]
      else [c])"

definition QuoteJSONString :: "string \<Rightarrow> string" where
  "QuoteJSONString s = [CHR 0x22] @ concat (map escape_char s) @ [CHR 0x22]"

text \<open>
  \<^verbatim>\<open>JSON.stringify(value)\<close> with no replacer and no indentation
  (\<^verbatim>\<open>SerializeJSONProperty\<close>, \<^verbatim>\<open>SerializeJSONArray\<close>,
  \<^verbatim>\<open>SerializeJSONObject\<close>). The result \<open>Inr None\<close> is JavaScript's
  \<^verbatim>\<open>undefined\<close>; \<open>Inl TypeError\<close> is the exception thrown on a circular
  structure or a BigInt. A property whose value serialises to \<^verbatim>\<open>undefined\<close>
  is left out of an object; such an element of an array is written \<^verbatim>\<open>null\<close>.
\<close>

fun JSON_stringify :: "jsval \<Rightarrow> js_error + string option"
  and SerializeJSONArray :: "jsval list \<Rightarrow> js_error + string list"
  and SerializeJSONObject :: "(string \<times> jsval) list \<Rightarrow> js_error + string list"
where
  "JSON_stringify JUndefined = Inr None"
| "JSON_stringify JFunction = Inr None"
| "JSON_stringify JNull = Inr (Some ''null'')"
| "JSON_stringify (JBool b) = Inr (Some (if b then ''true'' else ''false''))"
| "JSON_stringify (JNum n) = Inr (Some (show_int n))"
| "JSON_stringify (JStr s) = Inr (Some (QuoteJSONString s))"
| "JSON_stringify (JBigInt n) = Inl TypeError"
| "JSON_stringify JCyclic = Inl TypeError"
| "JSON_stringify (JArr xs) =
     (case SerializeJSONArray xs of
        Inl e \<Rightarrow> Inl e
      | Inr ps \<Rightarrow> Inr (Some (''['' @ join '','' ps @ '']'')))"
| "JSON_stringify (JObj kvs) =
     (case SerializeJSONObject kvs of
        Inl e \<Rightarrow> Inl e
      | Inr ps \<Rightarrow> Inr (Some (''{'' @ join '','' ps @ ''}'')))"
| "SerializeJSONArray [] = Inr []"
| "SerializeJSONArray (x # xs) =
     (case JSON_stringify x of
        Inl e \<Rightarrow> Inl e
      | Inr r \<Rightarrow>
          (case SerializeJSONArray xs of
             Inl e \<Rightarrow> Inl e
           | Inr ps \<Rightarrow> Inr ((case r of None \<Rightarrow> ''null'' | Some s \<Rightarrow> s) # ps)))"
| "SerializeJSONObject [] = Inr []"
| "SerializeJSONObject ((k, v) # kvs) =
     (case JSON_stringify v of
        Inl e \<Rightarrow> Inl e
      | Inr r \<Rightarrow>
          (case SerializeJSONObject kvs of
             Inl e \<Rightarrow> Inl e
           | Inr ps \<Rightarrow>
               Inr ((case r of None \<Rightarrow> [] | Some s \<Rightarrow> [QuoteJSONString k @ '':'' @ s]) @ ps)))"

text \<open>Property access \<^verbatim>\<open>o[k]\<close> and \<^verbatim>\<open>Object.keys(o)\<close> on a value.\<close>

fun js_get :: "jsval \<Rightarrow> string \<Rightarrow> jsval" where
  "js_get (JObj kvs) k = (case map_of kvs k of None \<Rightarrow> JUndefined | Some v \<Rightarrow> v)"
| "js_get v k = JUndefined"

fun Object_keys :: "jsval \<Rightarrow> string list" where
  "Object_keys (JObj kvs) = map fst kvs"
| "Object_keys v = []"

text \<open>
  The operator \<^verbatim>\<open>a || b\<close> on an optional string: the right operand is taken
  when the left one is \<^verbatim>\<open>undefined\<close> or the empty string (both are falsy).
  On an optional object or array only \<^verbatim>\<open>undefined\<close> is falsy.
\<close>

definition or_string :: "string option \<Rightarrow> string \<Rightarrow> string" where
  "or_string a b = (case a of None \<Rightarrow> b | Some s \<Rightarrow> if s = [] then b else s)"

definition or_object :: "'a option \<Rightarrow> 'a \<Rightarrow> 'a" where
  "or_object a b = (case a of None \<Rightarrow> b | Some v \<Rightarrow> v)"

section \<open>The OpenAPI types of \<^verbatim>\<open>src/index.ts\<close>\<close>

record OpenAPIInfo =
  info_title :: "string option"
  info_description :: "string option"
  info_version :: "string option"

text \<open>
  The fragment supplied by the caller. Tags are an array of tag objects, components and
  paths are objects; their members are kept as JavaScript values, since the code never
  looks inside them.
\<close>

record OpenAPIDocumentation =
  doc_info :: "OpenAPIInfo option"
  doc_tags :: "jsval list option"
  doc_components :: "jsobject option"
  doc_paths :: "jsobject option"

definition empty_info :: OpenAPIInfo where
  "empty_info = \<lparr>info_title = None, info_description = None, info_version = None\<rparr>"

definition empty_documentation :: OpenAPIDocumentation where
  "empty_documentation = \<lparr>doc_info = None, doc_tags = None, doc_components = None, doc_paths = None\<rparr>"

text \<open>Optional chaining \<^verbatim>\<open>documentation.info?.f\<close>.\<close>

definition info_field :: "(OpenAPIInfo \<Rightarrow> string option) \<Rightarrow> OpenAPIDocumentation \<Rightarrow> string option" where
  "info_field f documentation = (case doc_info documentation of None \<Rightarrow> None | Some i \<Rightarrow> f i)"

section \<open>Spec builder\<close>

definition createOpenAPISpec :: "OpenAPIDocumentation \<Rightarrow> jsval" where
  "createOpenAPISpec documentation =
     JObj [
       (''openapi'', JStr ''3.0.3''),
       (''info'', JObj [
          (''title'', JStr (or_string (info_field info_title documentation) ''Vafast API'')),
          (''description'', JStr (or_string (info_field info_description documentation) ''API documentation'')),
          (''version'', JStr (or_string (info_field info_version documentation) ''1.0.0''))]),
       (''paths'', JObj (or_object (doc_paths documentation) [])),
       (''components'', JObj (or_object (doc_components documentation) [])),
       (''tags'', JArr (or_object (doc_tags documentation) []))]"

section \<open>Page renderers\<close>

text \<open>
  A template literal is the concatenation of its literal chunks and of its interpolated
  values; \<^verbatim>\<open>undefined\<close> is interpolated as the text \<^verbatim>\<open>undefined\<close>.
\<close>

definition interpolate :: "string option \<Rightarrow> string" where
  "interpolate r = (case r of None \<Rightarrow> ''undefined'' | Some s \<Rightarrow> s)"

text \<open>
  The callback of \<^verbatim>\<open>Object.entries(swaggerOptions).map(...)\<close> in
  \<^verbatim>\<open>renderSwaggerUI\<close>, and \<^verbatim>\<open>Array.prototype.map\<close> with a callback that
  may throw: the first exception ends the traversal.
\<close>

definition swaggerOption_entry :: "string \<times> jsval \<Rightarrow> js_error + string" where
  "swaggerOption_entry kv =
     (case JSON_stringify (snd kv) of
        Inl e \<Rightarrow> Inl e
      | Inr r \<Rightarrow> Inr (fst kv @ '': '' @ interpolate r))"

fun map_throwing :: "('a \<Rightarrow> js_error + 'b) \<Rightarrow> 'a list \<Rightarrow> js_error + 'b list" where
  "map_throwing f [] = Inr []"
| "map_throwing f (x # xs) =
     (case f x of
        Inl e \<Rightarrow> Inl e
      | Inr y \<Rightarrow> (case map_throwing f xs of Inl e \<Rightarrow> Inl e | Inr ys \<Rightarrow> Inr (y # ys)))"

text \<open>
  The \<^verbatim>\<open>theme\<close> option is a string or a pair of strings
  \<^verbatim>\<open>{ light, dark }\<close>.
\<close>

datatype theme = ThemeString string | ThemeLightDark string string

definition renderSwaggerUI ::
  "OpenAPIInfo \<Rightarrow> string \<Rightarrow> theme \<Rightarrow> jsobject \<Rightarrow> bool \<Rightarrow> js_error + string" where
  \<open>renderSwaggerUI info version theme swaggerOptions autoDarkMode =
     (let title = or_string (info_title info) ''API Documentation'';
          description = or_string (info_description info) ''API documentation'';
          apiVersion = or_string (info_version info) ''1.0.0''
      in case map_throwing swaggerOption_entry swaggerOptions of
        Inl e \<Rightarrow> Inl e
      | Inr entries \<Rightarrow> Inr (concat [
        ''<!DOCTYPE html>\<newline>'' @
        ''<html lang="en">\<newline>'' @
        ''<head>\<newline>'' @
        ''    <meta charset="UTF-8">\<newline>'' @
        ''    <meta name="viewport" content="width=device-width, initial-scale=1.0">\<newline>'' @
        ''    <title>'',
        title,
        ''</title>\<newline>'' @
        ''    <link rel="stylesheet" type="text/css" href="https://unpkg.com/swagger-ui-dist@'',
        version,
        ''/swagger-ui.css" />\<newline>'' @
        ''    <style>\<newline>'' @
        ''        html { box-sizing: border-box; overflow: -moz-scrollbars-vertical; overflow-y: scroll; }\<newline>'' @
        ''        *, *:before, *:after { box-sizing: inherit; }\<newline>'' @
        ''        body { margin:0; background: #fafafa; }\<newline>'' @
        ''        '',
        (if autoDarkMode
         then ''\<newline>'' @
        ''        @media (prefers-color-scheme: dark) {\<newline>'' @
        ''            body { background: #1a1a1a; }\<newline>'' @
        ''        }\<newline>'' @
        ''        ''
         else []),
        ''\<newline>'' @
        ''    </style>\<newline>'' @
        ''</head>\<newline>'' @
        ''<body>\<newline>'' @
        ''    <div id="swagger-ui"></div>\<newline>'' @
        ''    <script src="https://unpkg.com/swagger-ui-dist@'',
        version,
        ''/swagger-ui-bundle.js"></script>\<newline>'' @
        ''    <script src="https://unpkg.com/swagger-ui-dist@'',
        version,
        ''/swagger-ui-standalone-preset.js"></script>\<newline>'' @
        ''    <script>\<newline>'' @
        ''        window.onload = function() {\<newline>'' @
        ''            const ui = SwaggerUIBundle({\<newline>'' @
        ''                url: './json',\<newline>'' @
        ''                dom_id: '#swagger-ui',\<newline>'' @
        ''                deepLinking: true,\<newline>'' @
        ''                presets: [SwaggerUIBundle.presets.apis, SwaggerUIStandalone.presets.standalone],\<newline>'' @
        ''                plugins: [SwaggerUIBundle.plugins.DownloadUrl],\<newline>'' @
        ''                layout: "StandaloneLayout",\<newline>'' @
        ''                '',
        join ('',\<newline>'' @ ''                '') entries,
        ''\<newline>'' @
        ''            });\<newline>'' @
        ''        };\<newline>'' @
        ''    </script>\<newline>'' @
        ''</body>\<newline>'' @
        ''</html>'']))\<close>

definition renderScalar ::
  "OpenAPIInfo \<Rightarrow> string \<Rightarrow> jsobject \<Rightarrow> string \<Rightarrow> js_error + string" where
  \<open>renderScalar info version config cdn =
     (let title = or_string (info_title info) ''API Documentation'';
          description = or_string (info_description info) ''API documentation''
      in case JSON_stringify (JObj config) of
        Inl e \<Rightarrow> Inl e
      | Inr configuration \<Rightarrow> Inr (concat [
        ''<!DOCTYPE html>\<newline>'' @
        ''<html lang="en">\<newline>'' @
        ''<head>\<newline>'' @
        ''    <meta charset="UTF-8">\<newline>'' @
        ''    <meta name="viewport" content="width=device-width, initial-scale=1.0">\<newline>'' @
        ''    <title>'',
        title,
        ''</title>\<newline>'' @
        ''    <style>\<newline>'' @
        ''        body { margin: 0; font-family: -apple-system, BlinkMacSystemFont, 'Segoe UI', Roboto, sans-serif; }\<newline>'' @
        ''        #api-reference { min-height: 100vh; }\<newline>'' @
        ''    </style>\<newline>'' @
        ''</head>\<newline>'' @
        ''<body>\<newline>'' @
        ''    <div id="api-reference" data-url="./json" data-configuration='' @ [CHR 0x27],
        interpolate configuration,
        '''></div>\<newline>'' @
        ''    <script src="'',
        (if cdn \<noteq> []
         then cdn
         else ''https://cdn.jsdelivr.net/npm/@scalar/api-reference@'' @ version @
              ''/dist/browser/standalone.min.js''),
        ''" crossorigin></script>\<newline>'' @
        ''</body>\<newline>'' @
        ''</html>'']))\<close>

section \<open>Configuration\<close>

datatype provider = Scalar | SwaggerUI

datatype pattern = PString string | PRegExp string

datatype exclude = ExcludeOne pattern | ExcludeMany "pattern list"

text \<open>
  The interface \<^verbatim>\<open>VafastSwaggerConfig\<close>: every field is optional, \<open>None\<close> is
  an absent (\<^verbatim>\<open>undefined\<close>) field.
\<close>

record VafastSwaggerConfig =
  cfg_provider :: "provider option"
  cfg_scalarVersion :: "string option"
  cfg_scalarCDN :: "string option"
  cfg_scalarConfig :: "jsobject option"
  cfg_documentation :: "OpenAPIDocumentation option"
  cfg_version :: "string option"
  cfg_excludeStaticFile :: "bool option"
  cfg_path :: "string option"
  cfg_specPath :: "string option"
  cfg_exclude :: "exclude option"
  cfg_swaggerOptions :: "jsobject option"
  cfg_theme :: "theme option"
  cfg_autoDarkMode :: "bool option"
  cfg_excludeMethods :: "string list option"
  cfg_excludeTags :: "string list option"

definition empty_config :: VafastSwaggerConfig where
  "empty_config = \<lparr>
     cfg_provider = None, cfg_scalarVersion = None, cfg_scalarCDN = None,
     cfg_scalarConfig = None, cfg_documentation = None, cfg_version = None,
     cfg_excludeStaticFile = None, cfg_path = None, cfg_specPath = None,
     cfg_exclude = None, cfg_swaggerOptions = None, cfg_theme = None,
     cfg_autoDarkMode = None, cfg_excludeMethods = None, cfg_excludeTags = None\<rparr>"

text \<open>
  The variables bound by the destructuring parameter of \<^verbatim>\<open>swagger\<close>, which the
  returned middleware closes over.
\<close>

record swagger_scope =
  provider :: provider
  scalarVersion :: string
  scalarCDN :: string
  scalarConfig :: jsobject
  documentation :: OpenAPIDocumentation
  version :: string
  excludeStaticFile :: bool
  path :: string
  specPath :: string
  exclude :: exclude
  swaggerOptions :: jsobject
  theme :: theme
  autoDarkMode :: bool
  excludeMethods :: "string list"
  excludeTags :: "string list"

text \<open>A default initialiser \<^verbatim>\<open>x = d\<close> applies when the field is \<^verbatim>\<open>undefined\<close>.\<close>

definition default_to :: "'a option \<Rightarrow> 'a \<Rightarrow> 'a" where
  "default_to a d = (case a of None \<Rightarrow> d | Some v \<Rightarrow> v)"

definition destructure :: "VafastSwaggerConfig \<Rightarrow> swagger_scope" where
  "destructure c =
     (let version' = default_to (cfg_version c) ''4.18.2'';
          path' = default_to (cfg_path c) ''/swagger''
      in \<lparr>
        provider = default_to (cfg_provider c) Scalar,
        scalarVersion = default_to (cfg_scalarVersion c) ''latest'',
        scalarCDN = default_to (cfg_scalarCDN c) [],
        scalarConfig = default_to (cfg_scalarConfig c) [],
        documentation = default_to (cfg_documentation c) empty_documentation,
        version = version',
        excludeStaticFile = default_to (cfg_excludeStaticFile c) True,
        path = path',
        specPath = default_to (cfg_specPath c) (path' @ ''/json''),
        exclude = default_to (cfg_exclude c) (ExcludeMany []),
        swaggerOptions = default_to (cfg_swaggerOptions c) [],
        theme = default_to (cfg_theme c)
                  (ThemeString (''https://unpkg.com/swagger-ui-dist@'' @ version' @ ''/swagger-ui.css'')),
        autoDarkMode = default_to (cfg_autoDarkMode c) True,
        excludeMethods = default_to (cfg_excludeMethods c) [''OPTIONS''],
        excludeTags = default_to (cfg_excludeTags c) []\<rparr>)"

section \<open>Requests, responses and the middleware\<close>

text \<open>
  A request carries its method and its URL. The URL is kept in the parsed form that
  \<^verbatim>\<open>new URL(req.url)\<close> yields; the constructor cannot throw here, as the URL of a
  \<^verbatim>\<open>Request\<close> is always a well-formed absolute URL.
\<close>

record URL =
  protocol :: string
  host :: string
  pathname :: string
  search :: string
  hash :: string

record request =
  req_method :: string
  req_url :: URL

datatype body = TextBody string | JsonBody jsval

record response =
  status :: nat
  headers :: "(string \<times> string) list"
  body :: body

datatype promise = Fulfilled response | Rejected js_error | Pending

definition Promise_resolve :: "response \<Rightarrow> promise" where
  "Promise_resolve r = Fulfilled r"

text \<open>
  Modelled from the spec: the response helpers \<^verbatim>\<open>html\<close> (imported as
  \<^verbatim>\<open>htmlResponse\<close>) and \<^verbatim>\<open>json\<close> of the host framework, whose source is
  not part of the repository. Section 4.1 of the specification: an HTML response has
  content type \<^verbatim>\<open>text/html\<close>, the given string as body and status 200; a JSON
  response has content type \<^verbatim>\<open>application/json\<close>, the given document as body
  and status 200. The body of a JSON response is kept as the document that parsing it
  gives back.
\<close>

definition htmlResponse :: "string \<Rightarrow> response" where
  "htmlResponse content =
     \<lparr>status = 200, headers = [(''content-type'', ''text/html'')], body = TextBody content\<rparr>"

definition json :: "jsval \<Rightarrow> response" where
  "json data =
     \<lparr>status = 200, headers = [(''content-type'', ''application/json'')], body = JsonBody data\<rparr>"

text \<open>The page computed for the UI path (\<^verbatim>\<open>const htmlContent\<close>).\<close>

definition htmlContent :: "swagger_scope \<Rightarrow> js_error + string" where
  "htmlContent s =
     (if provider s = SwaggerUI
      then renderSwaggerUI (or_object (doc_info (documentation s)) empty_info)
             (version s) (theme s) (swaggerOptions s) (autoDarkMode s)
      else renderScalar (or_object (doc_info (documentation s)) empty_info)
             (scalarVersion s) (scalarConfig s) (scalarCDN s))"

text \<open>
  The function returned by \<^verbatim>\<open>swagger\<close>. A call either throws (\<open>Inl\<close>) or returns
  a promise; \<^verbatim>\<open>next\<close> is the continuation of the host.
\<close>

definition middleware ::
  "swagger_scope \<Rightarrow> request \<Rightarrow> (unit \<Rightarrow> js_error + promise) \<Rightarrow> js_error + promise" where
  "middleware s req next =
     (let url = req_url req
      in if pathname url = path s then
           (case htmlContent s of
              Inl e \<Rightarrow> Inl e
            | Inr content \<Rightarrow> Inr (Promise_resolve (htmlResponse content)))
         else if pathname url = specPath s then
           (let spec = createOpenAPISpec (documentation s)
            in Inr (Promise_resolve (json spec)))
         else next ())"

text \<open>\<^verbatim>\<open>swagger(config)\<close>; \<open>None\<close> is the call without an argument.\<close>

definition configured :: "VafastSwaggerConfig option \<Rightarrow> swagger_scope" where
  "configured config = destructure (default_to config empty_config)"

definition swagger ::
  "VafastSwaggerConfig option \<Rightarrow> request \<Rightarrow> (unit \<Rightarrow> js_error + promise) \<Rightarrow> js_error + promise" where
  "swagger config = middleware (configured config)"

section \<open>Vocabulary of the properties\<close>

text \<open>
  A value is serialisable when \<^verbatim>\<open>JSON.stringify\<close> does not throw on it: no
  circular reference and no BigInt occurs in it.
\<close>

fun serializable :: "jsval \<Rightarrow> bool" where
  "serializable JCyclic = False"
| "serializable (JBigInt n) = False"
| "serializable (JArr xs) = list_all serializable xs"
| "serializable (JObj kvs) = list_all serializable (map snd kvs)"
| "serializable v = True"

text \<open>The option object that the renderer of the configured provider serialises.\<close>

definition selected_options :: "swagger_scope \<Rightarrow> jsobject" where
  "selected_options s = (if provider s = SwaggerUI then swaggerOptions s else scalarConfig s)"

text \<open>
  What a caller observes of a call of the middleware: the response a returned promise is
  fulfilled with, and \<^verbatim>\<open>res.headers.get(name)\<close>.
\<close>

fun fulfilled :: "js_error + promise \<Rightarrow> response option" where
  "fulfilled (Inr (Fulfilled r)) = Some r"
| "fulfilled outcome = None"

definition headers_get :: "response \<Rightarrow> string \<Rightarrow> string option" where
  "headers_get r name = map_of (headers r) name"

definition status_of :: "js_error + promise \<Rightarrow> nat option" where
  "status_of outcome = map_option status (fulfilled outcome)"

definition content_type_of :: "js_error + promise \<Rightarrow> string option" where
  "content_type_of outcome =
     (case fulfilled outcome of None \<Rightarrow> None | Some r \<Rightarrow> headers_get r ''content-type'')"

definition text_of :: "js_error + promise \<Rightarrow> string option" where
  "text_of outcome =
     (case fulfilled outcome of
        None \<Rightarrow> None
      | Some r \<Rightarrow> (case body r of TextBody t \<Rightarrow> Some t | JsonBody d \<Rightarrow> None))"

text \<open>
  The requests and the downstream handler of the test suite:
  \<^verbatim>\<open>new Request('http://localhost' + p)\<close>, and a handler that answers with a JSON
  message.
\<close>

definition request_to :: "string \<Rightarrow> request" where
  "request_to p =
     \<lparr>req_method = ''GET'',
      req_url = \<lparr>protocol = ''http:'', host = ''localhost'', pathname = p, search = [], hash = []\<rparr>\<rparr>"

definition hello_next :: "unit \<Rightarrow> js_error + promise" where
  "hello_next u = Inr (Fulfilled (json (JObj [(''message'', JStr ''Hello, API!'')])))"

text \<open>The documentation fragment of the test \<^verbatim>\<open>should handle custom documentation info\<close>.\<close>

definition custom_documentation :: OpenAPIDocumentation where
  "custom_documentation =
     \<lparr>doc_info = Some \<lparr>info_title = Some ''Custom API'', info_description = None,
                        info_version = Some ''2.0.0''\<rparr>,
      doc_tags = Some [JObj [(''name'', JStr ''Users'')]],
      doc_components = None, doc_paths = None\<rparr>"

text \<open>The configuration of the test \<^verbatim>\<open>should handle custom path and spec path\<close>.\<close>

definition custom_paths_config :: VafastSwaggerConfig where
  "custom_paths_config =
     empty_config\<lparr>cfg_path := Some ''/api-docs'', cfg_specPath := Some ''/api-docs/spec''\<rparr>"

text \<open>The configuration of the test \<^verbatim>\<open>should handle exclude tags\<close>, without its exclusions.\<close>

definition tagged_config :: VafastSwaggerConfig where
  "tagged_config =
     empty_config\<lparr>cfg_documentation := Some (empty_documentation\<lparr>doc_tags :=
       Some [JObj [(''name'', JStr ''Public''), (''description'', JStr ''Public endpoints'')],
             JObj [(''name'', JStr ''Private''), (''description'', JStr ''Private endpoints'')]]\<rparr>)\<rparr>"

text \<open>
  A configuration for the default provider whose \<^verbatim>\<open>scalarConfig\<close> holds a function
  and whose \<^verbatim>\<open>swaggerOptions\<close> refers to itself.
\<close>

definition dropped_options_config :: VafastSwaggerConfig where
  "dropped_options_config =
     empty_config\<lparr>cfg_scalarConfig := Some [(''onLoaded'', JFunction)],
                  cfg_swaggerOptions := Some [(''self'', JCyclic)]\<rparr>"

text \<open>The configuration of the test \<^verbatim>\<open>should handle custom theme\<close>, without its theme.\<close>

definition themed_config :: VafastSwaggerConfig where
  "themed_config = empty_config\<lparr>cfg_provider := Some SwaggerUI\<rparr>"

section \<open>The heap behind the configuration\<close>

text \<open>
  The values above are trees. In the running program the documentation fragment is an
  object on the JavaScript heap, the middleware holds a reference to it, and every request
  reads it again. For the statements about repeated requests the spec branch of the
  middleware is therefore also modelled on an explicit heap: a finite map from addresses
  to objects, whose property values are primitives or references.
\<close>

type_synonym addr = nat

datatype hval =
    HUndefined
  | HNull
  | HBool bool
  | HNum int
  | HStr string
  | HFunction
  | HBigInt int
  | HRef addr

datatype hobj = HObject "(string \<times> hval) list" | HArray "hval list"

type_synonym heap = "(addr \<times> hobj) list"

fun fields :: "hobj \<Rightarrow> hval list" where
  "fields (HObject props) = map snd props"
| "fields (HArray xs) = xs"

text \<open>
  The tree that a serialiser sees from a value: it follows references, and an object met
  again while it is still being visited (it is on the stack) is a circular reference.
  The visit ends because every reference followed adds an address of the heap to the stack.
\<close>

function snapshot :: "heap \<Rightarrow> addr list \<Rightarrow> hval \<Rightarrow> jsval" where
  "snapshot h stack HUndefined = JUndefined"
| "snapshot h stack HNull = JNull"
| "snapshot h stack (HBool b) = JBool b"
| "snapshot h stack (HNum n) = JNum n"
| "snapshot h stack (HStr s) = JStr s"
| "snapshot h stack HFunction = JFunction"
| "snapshot h stack (HBigInt n) = JBigInt n"
| "snapshot h stack (HRef a) =
     (if a \<in> set stack then JCyclic
      else case map_of h a of
        None \<Rightarrow> JUndefined
      | Some (HObject props) \<Rightarrow>
          JObj (map (\<lambda>kv. (fst kv, snapshot h (a # stack) (snd kv))) props)
      | Some (HArray xs) \<Rightarrow> JArr (map (snapshot h (a # stack)) xs))"
  by pat_completeness auto
termination
proof (relation "measure (\<lambda>(h, stack, v). card (fst ` set h - set stack))")
  show "wf (measure (\<lambda>(h, stack, v). card (fst ` set h - set stack)))" by simp
next
  fix h :: heap and stack a obj props and kv :: "string \<times> hval"
  assume "a \<notin> set stack" "map_of h a = Some obj"
  then have "a \<in> fst ` set h - set stack"
    by (auto dest: map_of_SomeD intro: rev_image_eqI)
  then have "card (fst ` set h - set stack - {a}) < card (fst ` set h - set stack)"
    by (intro card_Diff1_less) auto
  moreover have "fst ` set h - set (a # stack) = fst ` set h - set stack - {a}" by auto
  ultimately show "((h, a # stack, snd kv), h, stack, HRef a)
       \<in> measure (\<lambda>(h, stack, v). card (fst ` set h - set stack))"
    by simp
next
  fix h :: heap and stack a obj xs and x :: hval
  assume "a \<notin> set stack" "map_of h a = Some obj"
  then have "a \<in> fst ` set h - set stack"
    by (auto dest: map_of_SomeD intro: rev_image_eqI)
  then have "card (fst ` set h - set stack - {a}) < card (fst ` set h - set stack)"
    by (intro card_Diff1_less) auto
  moreover have "fst ` set h - set (a # stack) = fst ` set h - set stack - {a}" by auto
  ultimately show "((h, a # stack, x), h, stack, HRef a)
       \<in> measure (\<lambda>(h, stack, v). card (fst ` set h - set stack))"
    by simp
qed

text \<open>
  A heap is closed when no object in it holds a dangling reference; \<open>agrees g h\<close> says that
  every object of \<open>h\<close> is in \<open>g\<close> with the same properties, whatever else \<open>g\<close> holds.
\<close>

definition allocated :: "heap \<Rightarrow> addr \<Rightarrow> bool" where
  "allocated h a = (map_of h a \<noteq> None)"

fun valid :: "heap \<Rightarrow> hval \<Rightarrow> bool" where
  "valid h (HRef a) = allocated h a"
| "valid h v = True"

definition closed :: "heap \<Rightarrow> bool" where
  "closed h = list_all (\<lambda>entry. list_all (valid h) (fields (snd entry))) h"

definition agrees :: "heap \<Rightarrow> heap \<Rightarrow> bool" where
  "agrees g h = list_all (\<lambda>entry. map_of g (fst entry) = map_of h (fst entry)) h"

text \<open>An object literal allocates a new object; an assignment to a property replaces one.\<close>

definition fresh :: "heap \<Rightarrow> addr" where
  "fresh h = Suc (foldr max (map fst h) 0)"

definition alloc :: "heap \<Rightarrow> hobj \<Rightarrow> addr \<times> heap" where
  "alloc h obj = (fresh h, (fresh h, obj) # h)"

definition store :: "heap \<Rightarrow> addr \<Rightarrow> hobj \<Rightarrow> heap" where
  "store h a obj = (a, obj) # h"

text \<open>
  The property read \<^verbatim>\<open>v.k\<close> (of a value that is not \<^verbatim>\<open>undefined\<close> or
  \<^verbatim>\<open>null\<close>; inherited properties are not represented), the optional chain
  \<^verbatim>\<open>v?.k\<close>, truthiness, and \<^verbatim>\<open>a || b\<close> with a value or with an object literal
  on the right, which is allocated only when the left operand is falsy.
\<close>

definition get :: "heap \<Rightarrow> hval \<Rightarrow> string \<Rightarrow> hval" where
  "get h v k =
     (case v of
        HRef a \<Rightarrow>
          (case map_of h a of
             Some (HObject props) \<Rightarrow> (case map_of props k of Some w \<Rightarrow> w | None \<Rightarrow> HUndefined)
           | _ \<Rightarrow> HUndefined)
      | _ \<Rightarrow> HUndefined)"

definition get_optional :: "heap \<Rightarrow> hval \<Rightarrow> string \<Rightarrow> hval" where
  "get_optional h v k = (if v = HUndefined \<or> v = HNull then HUndefined else get h v k)"

fun truthy :: "hval \<Rightarrow> bool" where
  "truthy HUndefined = False"
| "truthy HNull = False"
| "truthy (HBool b) = b"
| "truthy (HNum n) = (n \<noteq> 0)"
| "truthy (HStr s) = (s \<noteq> [])"
| "truthy HFunction = True"
| "truthy (HBigInt n) = (n \<noteq> 0)"
| "truthy (HRef a) = True"

definition or_value :: "hval \<Rightarrow> hval \<Rightarrow> hval" where
  "or_value a b = (if truthy a then a else b)"

definition or_literal :: "hval \<Rightarrow> hobj \<Rightarrow> heap \<Rightarrow> hval \<times> heap" where
  "or_literal a obj h =
     (if truthy a then (a, h) else (let (b, h') = alloc h obj in (HRef b, h')))"

text \<open>
  \<^verbatim>\<open>createOpenAPISpec(documentation)\<close> on the heap: \<open>ref\<close> is the address of the
  documentation object. The result is the address of the new document and the heap with
  the objects the function allocated.
\<close>

definition createOpenAPISpec_heap :: "addr \<Rightarrow> heap \<Rightarrow> addr \<times> heap" where
  "createOpenAPISpec_heap ref h =
     (let d = HRef ref;
          title = or_value (get_optional h (get h d ''info'') ''title'') (HStr ''Vafast API'');
          description = or_value (get_optional h (get h d ''info'') ''description'')
                          (HStr ''API documentation'');
          version = or_value (get_optional h (get h d ''info'') ''version'') (HStr ''1.0.0'');
          (info, h1) = alloc h (HObject [(''title'', title), (''description'', description),
                                         (''version'', version)]);
          (paths, h2) = or_literal (get h1 d ''paths'') (HObject []) h1;
          (components, h3) = or_literal (get h2 d ''components'') (HObject []) h2;
          (tags, h4) = or_literal (get h3 d ''tags'') (HArray []) h3
      in alloc h4 (HObject [(''openapi'', HStr ''3.0.3''), (''info'', HRef info), (''paths'', paths),
                            (''components'', components), (''tags'', tags)]))"

text \<open>
  The spec branch of the middleware (\<^verbatim>\<open>const spec = createOpenAPISpec(documentation);
  return Promise.resolve(json(spec))\<close>) on the heap. The response helper is given the tree
  that is read from the new document when the response is built.
\<close>

definition serve_spec :: "addr \<Rightarrow> heap \<Rightarrow> (js_error + promise) \<times> heap" where
  "serve_spec ref h =
     (let (spec, h') = createOpenAPISpec_heap ref h
      in (Inr (Promise_resolve (json (snapshot h' [] (HRef spec)))), h'))"

text \<open>
  The document written as a function of the documentation object and of what it refers
  to, without allocation.
\<close>

definition or_tree :: "heap \<Rightarrow> hval \<Rightarrow> jsval \<Rightarrow> jsval" where
  "or_tree h v t = (if truthy v then snapshot h [] v else t)"

definition document :: "heap \<Rightarrow> addr \<Rightarrow> jsval" where
  "document h ref =
     (let d = HRef ref; info = get h d ''info''
      in JObj [
        (''openapi'', JStr ''3.0.3''),
        (''info'', JObj [
           (''title'', snapshot h [] (or_value (get_optional h info ''title'') (HStr ''Vafast API''))),
           (''description'', snapshot h []
              (or_value (get_optional h info ''description'') (HStr ''API documentation''))),
           (''version'', snapshot h [] (or_value (get_optional h info ''version'') (HStr ''1.0.0'')))]),
        (''paths'', or_tree h (get h d ''paths'') (JObj [])),
        (''components'', or_tree h (get h d ''components'') (JObj [])),
        (''tags'', or_tree h (get h d ''tags'') (JArr []))])"

text \<open>
  The fragment as the tree model has it, read from the heap, and the heaps in which the
  documentation object has the shape of the interface \<^verbatim>\<open>OpenAPIDocumentation\<close>.
\<close>

definition string_field :: "heap \<Rightarrow> hval \<Rightarrow> string \<Rightarrow> string option" where
  "string_field h v k = (case get_optional h v k of HStr s \<Rightarrow> Some s | _ \<Rightarrow> None)"

definition fragment :: "heap \<Rightarrow> addr \<Rightarrow> OpenAPIDocumentation" where
  "fragment h ref =
     (let d = HRef ref; info = get h d ''info''
      in \<lparr>doc_info =
            (case info of
               HRef i \<Rightarrow> Some \<lparr>info_title = string_field h info ''title'',
                                info_description = string_field h info ''description'',
                                info_version = string_field h info ''version''\<rparr>
             | _ \<Rightarrow> None),
          doc_tags = (case snapshot h [] (get h d ''tags'') of JArr xs \<Rightarrow> Some xs | _ \<Rightarrow> None),
          doc_components =
            (case snapshot h [] (get h d ''components'') of JObj kvs \<Rightarrow> Some kvs | _ \<Rightarrow> None),
          doc_paths =
            (case snapshot h [] (get h d ''paths'') of JObj kvs \<Rightarrow> Some kvs | _ \<Rightarrow> None)\<rparr>)"

fun string_or_absent :: "hval \<Rightarrow> bool" where
  "string_or_absent HUndefined = True"
| "string_or_absent (HStr s) = True"
| "string_or_absent v = False"

fun object_or_absent :: "heap \<Rightarrow> hval \<Rightarrow> bool" where
  "object_or_absent h HUndefined = True"
| "object_or_absent h (HRef a) = (case map_of h a of Some (HObject props) \<Rightarrow> True | _ \<Rightarrow> False)"
| "object_or_absent h v = False"

fun array_or_absent :: "heap \<Rightarrow> hval \<Rightarrow> bool" where
  "array_or_absent h HUndefined = True"
| "array_or_absent h (HRef a) = (case map_of h a of Some (HArray xs) \<Rightarrow> True | _ \<Rightarrow> False)"
| "array_or_absent h v = False"

definition well_typed :: "heap \<Rightarrow> addr \<Rightarrow> bool" where
  "well_typed h ref =
     (let d = HRef ref; info = get h d ''info''
      in object_or_absent h info \<and>
         string_or_absent (get_optional h info ''title'') \<and>
         string_or_absent (get_optional h info ''description'') \<and>
         string_or_absent (get_optional h info ''version'') \<and>
         array_or_absent h (get h d ''tags'') \<and>
         object_or_absent h (get h d ''components'') \<and>
         object_or_absent h (get h d ''paths''))"

text \<open>
  A heap that holds the fragment of the test \<^verbatim>\<open>should handle custom documentation info\<close>
  at address 1, with a \<^verbatim>\<open>paths\<close> object that refers to itself, and the same heap
  with a further object of the host program.
\<close>

definition sample_heap :: heap where
  "sample_heap =
     [(1, HObject [(''info'', HRef 2), (''tags'', HRef 3), (''paths'', HRef 5)]),
      (2, HObject [(''title'', HStr ''Custom API''), (''version'', HStr ''2.0.0'')]),
      (3, HArray [HRef 4]),
      (4, HObject [(''name'', HStr ''Users'')]),
      (5, HObject [(''/loop'', HRef 5)])]"

definition busy_heap :: heap where
  "busy_heap = (9, HObject [(''requests'', HNum 41), (''fragment'', HRef 1)]) # sample_heap"

section \<open>Serialisation succeeds or throws a \<open>TypeError\<close>\<close>

text \<open>
  The serialiser on a sample: a function-valued property is left out, a function in an array
  becomes \<^verbatim>\<open>null\<close>, quotes and line feeds are escaped.
\<close>

lemma JSON_stringify_sample:
  \<open>JSON_stringify (JObj [(''a'', JNum (- 120)),
       (''b'', JArr [JFunction, JStr (''x'' @ [CHR 0x0A, CHR 0x22] @ ''y''), JBool True]),
       (''f'', JFunction)]) =
     Inr (Some (''{"a":-120,"b":[null,"x'' @ [CHR 0x5C] @ ''n'' @ [CHR 0x5C] @ ''"y",true]}''))\<close>
  by code_simp

lemma stringify_cases:
  "(case JSON_stringify v of Inl e \<Rightarrow> e = TypeError \<and> \<not> serializable v | Inr r \<Rightarrow> serializable v)"
  "(case SerializeJSONArray xs of
      Inl e \<Rightarrow> e = TypeError \<and> \<not> list_all serializable xs
    | Inr r \<Rightarrow> list_all serializable xs)"
  "(case SerializeJSONObject kvs of
      Inl e \<Rightarrow> e = TypeError \<and> \<not> list_all serializable (map snd kvs)
    | Inr r \<Rightarrow> list_all serializable (map snd kvs))"
  by (induction v and xs and kvs rule: JSON_stringify_SerializeJSONArray_SerializeJSONObject.induct)
     (auto split: sum.splits)

lemma entries_cases:
  "(case map_throwing swaggerOption_entry kvs of
      Inl e \<Rightarrow> e = TypeError \<and> \<not> list_all serializable (map snd kvs)
    | Inr r \<Rightarrow> list_all serializable (map snd kvs))"
proof (induction kvs)
  case Nil
  show ?case by simp
next
  case (Cons kv kvs)
  from stringify_cases(1) [of "snd kv"] Cons show ?case
    by (auto simp: swaggerOption_entry_def split: sum.splits)
qed

lemma renderSwaggerUI_cases:
  "(case renderSwaggerUI i v t opts d of
      Inl e \<Rightarrow> e = TypeError \<and> \<not> serializable (JObj opts)
    | Inr page \<Rightarrow> serializable (JObj opts))"
proof (cases "map_throwing swaggerOption_entry opts")
  case (Inl e)
  then have "renderSwaggerUI i v t opts d = Inl e"
    by (simp only: renderSwaggerUI_def Let_def sum.case)
  with entries_cases [of opts] Inl show ?thesis by simp
next
  case (Inr es)
  then have "\<exists>page. renderSwaggerUI i v t opts d = Inr page"
    by (simp only: renderSwaggerUI_def Let_def sum.case) blast
  with entries_cases [of opts] Inr show ?thesis by auto
qed

lemma renderScalar_cases:
  "(case renderScalar i v cfg cdn of
      Inl e \<Rightarrow> e = TypeError \<and> \<not> serializable (JObj cfg)
    | Inr page \<Rightarrow> serializable (JObj cfg))"
proof (cases "JSON_stringify (JObj cfg)")
  case (Inl e)
  then have "renderScalar i v cfg cdn = Inl e"
    by (simp only: renderScalar_def Let_def sum.case)
  with stringify_cases(1) [of "JObj cfg"] Inl show ?thesis by simp
next
  case (Inr es)
  then have "\<exists>page. renderScalar i v cfg cdn = Inr page"
    by (simp only: renderScalar_def Let_def sum.case) blast
  with stringify_cases(1) [of "JObj cfg"] Inr show ?thesis by auto
qed

lemma htmlContent_cases:
  "(case htmlContent s of
      Inl e \<Rightarrow> e = TypeError \<and> \<not> serializable (JObj (selected_options s))
    | Inr page \<Rightarrow> serializable (JObj (selected_options s)))"
proof (cases "provider s = SwaggerUI")
  case True
  then have sel: "selected_options s = swaggerOptions s"
    by (simp add: selected_options_def)
  from True have "htmlContent s = renderSwaggerUI (or_object (doc_info (documentation s)) empty_info)
      (version s) (theme s) (swaggerOptions s) (autoDarkMode s)"
    by (simp add: htmlContent_def)
  then show ?thesis unfolding sel by (simp only: renderSwaggerUI_cases)
next
  case False
  then have sel: "selected_options s = scalarConfig s"
    by (simp add: selected_options_def)
  from False have "htmlContent s = renderScalar (or_object (doc_info (documentation s)) empty_info)
      (scalarVersion s) (scalarConfig s) (scalarCDN s)"
    by (simp add: htmlContent_def)
  then show ?thesis unfolding sel by (simp only: renderScalar_cases)
qed

lemma htmlContent_serializable:
  assumes "serializable (JObj (selected_options s))"
  obtains page where "htmlContent s = Inr page"
  using assms htmlContent_cases [of s] by (cases "htmlContent s") auto

lemma htmlContent_unserializable:
  assumes "\<not> serializable (JObj (selected_options s))"
  shows "htmlContent s = Inl TypeError"
  using assms htmlContent_cases [of s] by (cases "htmlContent s") auto

section \<open>Fixed text of the rendered pages\<close>

text \<open>A string that occurs in one chunk of a template occurs in the rendered page.\<close>

lemma sublist_concat:
  assumes "s \<in> set segs" and "sublist p s"
  shows "sublist p (concat segs)"
proof -
  from assms(1) obtain xs ys where "segs = xs @ s # ys"
    by (auto simp: in_set_conv_decomp)
  then have "concat segs = concat xs @ s @ concat ys" by simp
  then have "sublist s (concat segs)" by simp
  with assms(2) show ?thesis by (rule sublist_order.order_trans)
qed

lemma swagger_ui_bundle_marker:
  "renderSwaggerUI i v t opts d = Inr page \<Longrightarrow> sublist ''swagger-ui-bundle.js'' page"
  apply (cases "map_throwing swaggerOption_entry opts")
   apply (simp add: renderSwaggerUI_def Let_def)
  apply (simp only: renderSwaggerUI_def Let_def sum.case sum.inject)
  apply (erule subst)
  apply (rule sublist_concat [where s = \<open>''/swagger-ui-bundle.js"></script>\<newline>'' @
        ''    <script src="https://unpkg.com/swagger-ui-dist@''\<close>])
   apply simp
  apply code_simp
  done

lemma swagger_ui_call_marker:
  "renderSwaggerUI i v t opts d = Inr page \<Longrightarrow> sublist ''SwaggerUIBundle'' page"
  apply (cases "map_throwing swaggerOption_entry opts")
   apply (simp add: renderSwaggerUI_def Let_def)
  apply (simp only: renderSwaggerUI_def Let_def sum.case sum.inject)
  apply (erule subst)
  apply (rule sublist_concat [where s = \<open>''/swagger-ui-standalone-preset.js"></script>\<newline>'' @
        ''    <script>\<newline>'' @
        ''        window.onload = function() {\<newline>'' @
        ''            const ui = SwaggerUIBundle({\<newline>'' @
        ''                url: './json',\<newline>'' @
        ''                dom_id: '#swagger-ui',\<newline>'' @
        ''                deepLinking: true,\<newline>'' @
        ''                presets: [SwaggerUIBundle.presets.apis, SwaggerUIStandalone.presets.standalone],\<newline>'' @
        ''                plugins: [SwaggerUIBundle.plugins.DownloadUrl],\<newline>'' @
        ''                layout: "StandaloneLayout",\<newline>'' @
        ''                ''\<close>])
   apply simp
  apply code_simp
  done

lemma scalar_marker:
  \<open>renderScalar i v cfg cdn = Inr page \<Longrightarrow> sublist ''id="api-reference"'' page\<close>
  apply (cases "JSON_stringify (JObj cfg)")
   apply (simp add: renderScalar_def Let_def)
  apply (simp only: renderScalar_def Let_def sum.case sum.inject)
  apply (erule subst)
  apply (rule sublist_concat [where s = \<open>''</title>\<newline>'' @
        ''    <style>\<newline>'' @
        ''        body { margin: 0; font-family: -apple-system, BlinkMacSystemFont, 'Segoe UI', Roboto, sans-serif; }\<newline>'' @
        ''        #api-reference { min-height: 100vh; }\<newline>'' @
        ''    </style>\<newline>'' @
        ''</head>\<newline>'' @
        ''<body>\<newline>'' @
        ''    <div id="api-reference" data-url="./json" data-configuration='' @ [CHR 0x27]\<close>])
   apply simp
  apply code_simp
  done

section \<open>Routing\<close>

lemma configured_None:
  "path (configured None) = ''/swagger''" "specPath (configured None) = ''/swagger/json''"
  "provider (configured None) = Scalar" "scalarConfig (configured None) = []"
  "swaggerOptions (configured None) = []" "documentation (configured None) = empty_documentation"
  by (simp_all add: configured_def destructure_def default_to_def empty_config_def Let_def)

lemma ui_path_outcome:
  assumes "pathname (req_url req) = path (configured config)"
  shows "swagger config req next =
    (case htmlContent (configured config) of
       Inl e \<Rightarrow> Inl e
     | Inr content \<Rightarrow> Inr (Fulfilled (htmlResponse content)))"
  using assms
  by (simp add: swagger_def middleware_def Let_def Promise_resolve_def split: sum.splits)

lemma spec_path_outcome:
  assumes "pathname (req_url req) = specPath (configured config)"
    and "pathname (req_url req) \<noteq> path (configured config)"
  shows "swagger config req next =
    Inr (Fulfilled (json (createOpenAPISpec (documentation (configured config)))))"
  using assms
  by (simp add: swagger_def middleware_def Let_def Promise_resolve_def)

text \<open>
  Claim C1. A request whose pathname is neither the configured UI path nor the configured
  spec path is answered by exactly what the call \<^verbatim>\<open>next()\<close> returns: the same
  promise, hence the same status, headers and body, or the same exception.
\<close>

theorem passthrough_other_paths:
  assumes "pathname (req_url req) \<noteq> path (configured config)"
    and "pathname (req_url req) \<noteq> specPath (configured config)"
  shows "swagger config req next = next ()"
  using assms by (simp add: swagger_def middleware_def Let_def)

theorem passthrough_other_paths_witness:
  "pathname (req_url (request_to ''/'')) \<noteq> path (configured None) \<and>
   pathname (req_url (request_to ''/'')) \<noteq> specPath (configured None) \<and>
   swagger None (request_to ''/'') hello_next =
     Inr (Fulfilled (json (JObj [(''message'', JStr ''Hello, API!'')])))"
  using passthrough_other_paths [of "request_to ''/''" None hello_next]
  by (simp add: configured_None request_to_def hello_next_def)

text \<open>
  Claim C2, as amended. A request, of any method, whose pathname equals the configured spec
  path and differs from the configured UI path is answered with status 200, content type
  \<^verbatim>\<open>application/json\<close> and a document whose member \<^verbatim>\<open>openapi\<close> is
  \<^verbatim>\<open>"3.0.3"\<close>.
\<close>

theorem spec_path_serves_openapi_json:
  assumes "pathname (req_url req) = specPath (configured config)"
    and "pathname (req_url req) \<noteq> path (configured config)"
  shows "\<exists>r doc. swagger config req next = Inr (Fulfilled r) \<and> status r = 200 \<and>
    headers_get r ''content-type'' = Some ''application/json'' \<and>
    body r = JsonBody doc \<and> js_get doc ''openapi'' = JStr ''3.0.3''"
  using spec_path_outcome [OF assms]
  by (simp add: json_def headers_get_def createOpenAPISpec_def)

theorem spec_path_serves_openapi_json_witness:
  "status_of (swagger None (request_to ''/swagger/json'') hello_next) = Some 200 \<and>
   content_type_of (swagger None (request_to ''/swagger/json'') hello_next) = Some ''application/json''"
  using spec_path_serves_openapi_json [of "request_to ''/swagger/json''" None hello_next]
  by (auto simp: configured_None request_to_def status_of_def content_type_of_def)

text \<open>
  Claim C2 as stated fails when the spec path is configured equal to the UI path: the
  UI branch is tested first, and the request to the spec path is answered with the HTML page.
\<close>

theorem spec_path_shadowed_counterexample:
  "pathname (req_url (request_to ''/docs'')) =
     specPath (configured (Some (empty_config\<lparr>cfg_path := Some ''/docs'', cfg_specPath := Some ''/docs''\<rparr>))) \<and>
   content_type_of (swagger (Some (empty_config\<lparr>cfg_path := Some ''/docs'', cfg_specPath := Some ''/docs''\<rparr>))
     (request_to ''/docs'') hello_next) = Some ''text/html''"
  by code_simp

text \<open>
  Claim C3, as amended. The built document has exactly the keys \<^verbatim>\<open>openapi\<close>,
  \<^verbatim>\<open>info\<close>, \<^verbatim>\<open>paths\<close>, \<^verbatim>\<open>components\<close>, \<^verbatim>\<open>tags\<close>, and its
  \<^verbatim>\<open>info\<close> exactly \<^verbatim>\<open>title\<close>, \<^verbatim>\<open>description\<close>, \<^verbatim>\<open>version\<close>.
  A field of \<^verbatim>\<open>info\<close> that is absent or the empty string gets its default
  (\<^verbatim>\<open>Vafast API\<close>, \<^verbatim>\<open>API documentation\<close>, \<^verbatim>\<open>1.0.0\<close>); a non-empty one is
  taken verbatim. Absent \<^verbatim>\<open>paths\<close> and \<^verbatim>\<open>components\<close> become the empty
  object, absent \<^verbatim>\<open>tags\<close> the empty array; supplied ones are taken verbatim.
\<close>

theorem createOpenAPISpec_shape:
  "Object_keys (createOpenAPISpec d) = [''openapi'', ''info'', ''paths'', ''components'', ''tags''] \<and>
   js_get (createOpenAPISpec d) ''openapi'' = JStr ''3.0.3'' \<and>
   Object_keys (js_get (createOpenAPISpec d) ''info'') = [''title'', ''description'', ''version''] \<and>
   (info_field info_title d = None \<or> info_field info_title d = Some '''' \<longrightarrow>
      js_get (js_get (createOpenAPISpec d) ''info'') ''title'' = JStr ''Vafast API'') \<and>
   (info_field info_description d = None \<or> info_field info_description d = Some '''' \<longrightarrow>
      js_get (js_get (createOpenAPISpec d) ''info'') ''description'' = JStr ''API documentation'') \<and>
   (info_field info_version d = None \<or> info_field info_version d = Some '''' \<longrightarrow>
      js_get (js_get (createOpenAPISpec d) ''info'') ''version'' = JStr ''1.0.0'') \<and>
   (\<forall>t. info_field info_title d = Some t \<and> t \<noteq> '''' \<longrightarrow>
      js_get (js_get (createOpenAPISpec d) ''info'') ''title'' = JStr t) \<and>
   (\<forall>t. info_field info_description d = Some t \<and> t \<noteq> '''' \<longrightarrow>
      js_get (js_get (createOpenAPISpec d) ''info'') ''description'' = JStr t) \<and>
   (\<forall>t. info_field info_version d = Some t \<and> t \<noteq> '''' \<longrightarrow>
      js_get (js_get (createOpenAPISpec d) ''info'') ''version'' = JStr t) \<and>
   (doc_paths d = None \<longrightarrow> js_get (createOpenAPISpec d) ''paths'' = JObj []) \<and>
   (doc_components d = None \<longrightarrow> js_get (createOpenAPISpec d) ''components'' = JObj []) \<and>
   (doc_tags d = None \<longrightarrow> js_get (createOpenAPISpec d) ''tags'' = JArr []) \<and>
   (\<forall>ps. doc_paths d = Some ps \<longrightarrow> js_get (createOpenAPISpec d) ''paths'' = JObj ps) \<and>
   (\<forall>cs. doc_components d = Some cs \<longrightarrow> js_get (createOpenAPISpec d) ''components'' = JObj cs) \<and>
   (\<forall>ts. doc_tags d = Some ts \<longrightarrow> js_get (createOpenAPISpec d) ''tags'' = JArr ts)"
  by (auto simp: createOpenAPISpec_def or_string_def or_object_def)

theorem createOpenAPISpec_shape_witness:
  "js_get (js_get (createOpenAPISpec custom_documentation) ''info'') ''title'' = JStr ''Custom API'' \<and>
   js_get (js_get (createOpenAPISpec custom_documentation) ''info'') ''version'' = JStr ''2.0.0'' \<and>
   js_get (js_get (createOpenAPISpec custom_documentation) ''info'') ''description'' = JStr ''API documentation'' \<and>
   js_get (createOpenAPISpec custom_documentation) ''tags'' = JArr [JObj [(''name'', JStr ''Users'')]] \<and>
   js_get (createOpenAPISpec custom_documentation) ''paths'' = JObj []"
  using createOpenAPISpec_shape [of custom_documentation]
  by (simp add: custom_documentation_def info_field_def)

text \<open>
  Claim C3 as stated fails for a supplied empty title: it is replaced by the default
  instead of being taken verbatim.
\<close>

theorem empty_title_counterexample:
  "info_field info_title
     (empty_documentation\<lparr>doc_info := Some (empty_info\<lparr>info_title := Some ''''\<rparr>)\<rparr>) = Some '''' \<and>
   js_get (js_get (createOpenAPISpec
     (empty_documentation\<lparr>doc_info := Some (empty_info\<lparr>info_title := Some ''''\<rparr>)\<rparr>)) ''info'') ''title''
     = JStr ''Vafast API'' \<and>
   js_get (js_get (createOpenAPISpec
     (empty_documentation\<lparr>doc_info := Some (empty_info\<lparr>info_title := Some ''''\<rparr>)\<rparr>)) ''info'') ''title''
     \<noteq> JStr ''''"
  by (simp add: createOpenAPISpec_def or_string_def info_field_def empty_documentation_def empty_info_def)

text \<open>
  Claim C4, as amended. When the options of the configured provider can be serialised
  (no circular reference, no BigInt), a request whose pathname equals the configured UI
  path is answered with status 200 and content type \<^verbatim>\<open>text/html\<close>; the body
  contains the bundle markers \<^verbatim>\<open>swagger-ui-bundle.js\<close> and
  \<^verbatim>\<open>SwaggerUIBundle\<close> for the provider \<^verbatim>\<open>swagger-ui\<close>, and the content
  element id \<^verbatim>\<open>api-reference\<close> for the provider \<^verbatim>\<open>scalar\<close>.
\<close>

theorem ui_path_serves_viewer_page:
  assumes "pathname (req_url req) = path (configured config)"
    and "serializable (JObj (selected_options (configured config)))"
  shows \<open>\<exists>r page. swagger config req next = Inr (Fulfilled r) \<and> status r = 200 \<and>
    headers_get r ''content-type'' = Some ''text/html'' \<and> body r = TextBody page \<and>
    (provider (configured config) = SwaggerUI \<longrightarrow>
       sublist ''swagger-ui-bundle.js'' page \<and> sublist ''SwaggerUIBundle'' page) \<and>
    (provider (configured config) = Scalar \<longrightarrow> sublist ''id="api-reference"'' page)\<close>
proof -
  from assms(2) obtain page where page: "htmlContent (configured config) = Inr page"
    by (rule htmlContent_serializable)
  with assms(1) have out: "swagger config req next = Inr (Fulfilled (htmlResponse page))"
    by (simp add: ui_path_outcome)
  have ui: "sublist ''swagger-ui-bundle.js'' page \<and> sublist ''SwaggerUIBundle'' page"
    if "provider (configured config) = SwaggerUI"
    using that page by (simp add: htmlContent_def swagger_ui_bundle_marker swagger_ui_call_marker)
  have sc: \<open>sublist ''id="api-reference"'' page\<close> if "provider (configured config) = Scalar"
    using that page by (simp add: htmlContent_def scalar_marker)
  from out ui sc show ?thesis
    by (simp add: htmlResponse_def headers_get_def)
qed

theorem ui_path_serves_viewer_page_witness:
  \<open>status_of (swagger None (request_to ''/swagger'') hello_next) = Some 200 \<and>
   content_type_of (swagger None (request_to ''/swagger'') hello_next) = Some ''text/html'' \<and>
   (\<exists>page. text_of (swagger None (request_to ''/swagger'') hello_next) = Some page \<and>
      sublist ''id="api-reference"'' page)\<close>
  using ui_path_serves_viewer_page [of "request_to ''/swagger''" None hello_next]
  by (auto simp: configured_None request_to_def selected_options_def status_of_def
      content_type_of_def text_of_def)

text \<open>
  Claim C4 as stated fails for a configuration whose \<^verbatim>\<open>scalarConfig\<close> refers to
  itself: rendering throws, and no response is produced.
\<close>

theorem cyclic_config_counterexample:
  "pathname (req_url (request_to ''/swagger'')) =
     path (configured (Some (empty_config\<lparr>cfg_scalarConfig := Some [(''self'', JCyclic)]\<rparr>))) \<and>
   swagger (Some (empty_config\<lparr>cfg_scalarConfig := Some [(''self'', JCyclic)]\<rparr>))
     (request_to ''/swagger'') hello_next = Inl TypeError"
  by code_simp

section \<open>The page of the reference viewer\<close>

text \<open>
  Claim C5 (the code departs from it). The page rendered for the provider
  \<^verbatim>\<open>scalar\<close> carries the serialised \<^verbatim>\<open>scalarConfig\<close> in
  \<^verbatim>\<open>data-configuration\<close>, but its \<^verbatim>\<open>data-url\<close> is the constant
  \<^verbatim>\<open>./json\<close>: with the UI at \<^verbatim>\<open>/api-docs\<close> and the spec path
  \<^verbatim>\<open>/api-docs/spec\<close>, the configured spec path occurs nowhere in the page.
\<close>

theorem scalar_data_url_ignores_specPath:
  \<open>specPath (configured (Some custom_paths_config)) = ''/api-docs/spec'' \<and>
   (\<exists>page. swagger (Some custom_paths_config) (request_to ''/api-docs'') hello_next =
        Inr (Fulfilled (htmlResponse page)) \<and>
      sublist ''<div id="api-reference" data-url="./json" data-configuration='{}'></div>'' page \<and>
      \<not> sublist ''/api-docs/spec'' page)\<close>
proof -
  have p: "pathname (req_url (request_to ''/api-docs'')) = path (configured (Some custom_paths_config))"
    and sp: "specPath (configured (Some custom_paths_config)) = ''/api-docs/spec''"
    by code_simp+
  have \<open>case htmlContent (configured (Some custom_paths_config)) of
      Inl e \<Rightarrow> False
    | Inr page \<Rightarrow>
        sublist ''<div id="api-reference" data-url="./json" data-configuration='{}'></div>'' page \<and>
        \<not> sublist ''/api-docs/spec'' page\<close>
    by code_simp
  then obtain page where page: "htmlContent (configured (Some custom_paths_config)) = Inr page"
    and \<open>sublist ''<div id="api-reference" data-url="./json" data-configuration='{}'></div>'' page\<close>
    and "\<not> sublist ''/api-docs/spec'' page"
    by (cases "htmlContent (configured (Some custom_paths_config))") simp_all
  moreover from page have "swagger (Some custom_paths_config) (request_to ''/api-docs'') hello_next =
      Inr (Fulfilled (htmlResponse page))"
    by (simp add: ui_path_outcome [OF p])
  ultimately show ?thesis using sp by blast
qed

section \<open>Fields without effect\<close>

lemma middleware_exclude:
  "middleware (s\<lparr>excludeMethods := ms, excludeTags := ts\<rparr>) = middleware s"
  by (intro ext) (simp add: middleware_def htmlContent_def Let_def)

lemma configured_exclude:
  "configured (Some (c\<lparr>cfg_excludeMethods := m, cfg_excludeTags := t\<rparr>)) =
     (configured (Some c))\<lparr>excludeMethods := default_to m [''OPTIONS''], excludeTags := default_to t []\<rparr>"
  by (simp add: configured_def destructure_def default_to_def Let_def)

text \<open>
  Claim C6. Replacing \<^verbatim>\<open>excludeMethods\<close> and \<^verbatim>\<open>excludeTags\<close> by any other
  values, or by none, changes the answer to no request. The document served at the spec path
  has the \<^verbatim>\<open>paths\<close> and the \<^verbatim>\<open>tags\<close> of the documentation fragment, entry for
  entry, whatever the two fields say.
\<close>

theorem spec_ignores_exclude_fields:
  "swagger (Some (c\<lparr>cfg_excludeMethods := m, cfg_excludeTags := t\<rparr>)) req next =
     swagger (Some c) req next \<and>
   (pathname (req_url req) = specPath (configured (Some c)) \<and>
    pathname (req_url req) \<noteq> path (configured (Some c)) \<longrightarrow>
      (\<exists>doc. swagger (Some (c\<lparr>cfg_excludeMethods := m, cfg_excludeTags := t\<rparr>)) req next
            = Inr (Fulfilled (json doc)) \<and>
         (\<forall>ps. doc_paths (documentation (configured (Some c))) = Some ps \<longrightarrow>
            js_get doc ''paths'' = JObj ps) \<and>
         (\<forall>ts. doc_tags (documentation (configured (Some c))) = Some ts \<longrightarrow>
            js_get doc ''tags'' = JArr ts)))"
proof -
  have same: "swagger (Some (c\<lparr>cfg_excludeMethods := m, cfg_excludeTags := t\<rparr>)) req next =
     swagger (Some c) req next"
    by (simp only: swagger_def configured_exclude middleware_exclude)
  have "js_get (createOpenAPISpec d) ''paths'' = JObj ps" if "doc_paths d = Some ps" for d ps
    using that by (simp add: createOpenAPISpec_def or_object_def)
  moreover have "js_get (createOpenAPISpec d) ''tags'' = JArr ts" if "doc_tags d = Some ts" for d ts
    using that by (simp add: createOpenAPISpec_def or_object_def)
  ultimately show ?thesis unfolding same
    using spec_path_outcome [of req "Some c" "next"] by blast
qed

theorem spec_ignores_exclude_fields_witness:
  "\<exists>doc. swagger (Some (tagged_config\<lparr>cfg_excludeMethods := None, cfg_excludeTags := Some [''Private'']\<rparr>))
       (request_to ''/swagger/json'') hello_next = Inr (Fulfilled (json doc)) \<and>
     js_get doc ''tags'' =
       JArr [JObj [(''name'', JStr ''Public''), (''description'', JStr ''Public endpoints'')],
             JObj [(''name'', JStr ''Private''), (''description'', JStr ''Private endpoints'')]]"
proof -
  have p: "pathname (req_url (request_to ''/swagger/json'')) = specPath (configured (Some tagged_config)) \<and>
      pathname (req_url (request_to ''/swagger/json'')) \<noteq> path (configured (Some tagged_config))"
    by code_simp
  have d: "doc_tags (documentation (configured (Some tagged_config))) =
      Some [JObj [(''name'', JStr ''Public''), (''description'', JStr ''Public endpoints'')],
            JObj [(''name'', JStr ''Private''), (''description'', JStr ''Private endpoints'')]]"
    by code_simp
  from p d spec_ignores_exclude_fields [of "Some [''Private'']" None tagged_config
      "request_to ''/swagger/json''" hello_next]
  show ?thesis by blast
qed

section \<open>Default and custom paths\<close>

text \<open>
  Claim C7. Without a configuration the UI path is \<^verbatim>\<open>/swagger\<close> and the spec path
  \<^verbatim>\<open>/swagger/json\<close>; an absent \<^verbatim>\<open>specPath\<close> is the UI path followed by
  \<^verbatim>\<open>/json\<close>. With \<^verbatim>\<open>path = "/api-docs"\<close> and
  \<^verbatim>\<open>specPath = "/api-docs/spec"\<close>, the request to \<^verbatim>\<open>/api-docs/spec\<close> is
  answered with status 200, the request to \<^verbatim>\<open>/api-docs\<close> as well (the options of
  the provider being serialisable, as they are when none is configured), and the requests to
  \<^verbatim>\<open>/swagger\<close> and \<^verbatim>\<open>/swagger/json\<close> are handed to \<^verbatim>\<open>next()\<close>.
\<close>

theorem default_and_custom_paths:
  "path (configured None) = ''/swagger'' \<and> specPath (configured None) = ''/swagger/json'' \<and>
   (cfg_specPath c = None \<longrightarrow>
      specPath (configured (Some c)) = path (configured (Some c)) @ ''/json'') \<and>
   (cfg_path c = Some ''/api-docs'' \<and> cfg_specPath c = Some ''/api-docs/spec'' \<longrightarrow>
      (serializable (JObj (selected_options (configured (Some c)))) \<longrightarrow>
         status_of (swagger (Some c) (request_to ''/api-docs'') next) = Some 200) \<and>
      status_of (swagger (Some c) (request_to ''/api-docs/spec'') next) = Some 200 \<and>
      swagger (Some c) (request_to ''/swagger'') next = next () \<and>
      swagger (Some c) (request_to ''/swagger/json'') next = next ())"
proof -
  have defaults: "path (configured None) = ''/swagger'' \<and> specPath (configured None) = ''/swagger/json''"
    by (simp add: configured_None)
  have appended: "specPath (configured (Some c)) = path (configured (Some c)) @ ''/json''"
    if "cfg_specPath c = None"
    using that by (simp add: configured_def destructure_def default_to_def Let_def)
  have custom: "(serializable (JObj (selected_options (configured (Some c)))) \<longrightarrow>
         status_of (swagger (Some c) (request_to ''/api-docs'') next) = Some 200) \<and>
      status_of (swagger (Some c) (request_to ''/api-docs/spec'') next) = Some 200 \<and>
      swagger (Some c) (request_to ''/swagger'') next = next () \<and>
      swagger (Some c) (request_to ''/swagger/json'') next = next ()"
    if c: "cfg_path c = Some ''/api-docs''" "cfg_specPath c = Some ''/api-docs/spec''"
  proof -
    from c have p: "path (configured (Some c)) = ''/api-docs''"
      and sp: "specPath (configured (Some c)) = ''/api-docs/spec''"
      by (simp_all add: configured_def destructure_def default_to_def Let_def)
    have ui: "status_of (swagger (Some c) (request_to ''/api-docs'') next) = Some 200"
      if "serializable (JObj (selected_options (configured (Some c))))"
    proof -
      from that obtain page where "htmlContent (configured (Some c)) = Inr page"
        by (rule htmlContent_serializable)
      then show ?thesis
        using p by (simp add: ui_path_outcome request_to_def status_of_def htmlResponse_def)
    qed
    have spec: "status_of (swagger (Some c) (request_to ''/api-docs/spec'') next) = Some 200"
      using p sp by (simp add: spec_path_outcome request_to_def status_of_def json_def)
    have old: "swagger (Some c) (request_to ''/swagger'') next = next ()"
      "swagger (Some c) (request_to ''/swagger/json'') next = next ()"
      using p sp by (simp_all add: swagger_def middleware_def Let_def request_to_def)
    from ui spec old show ?thesis by blast
  qed
  from defaults appended custom show ?thesis by blast
qed

theorem default_and_custom_paths_witness:
  "cfg_specPath empty_config = None \<and>
   specPath (configured (Some empty_config)) = ''/swagger/json'' \<and>
   status_of (swagger (Some custom_paths_config) (request_to ''/api-docs'') hello_next) = Some 200 \<and>
   status_of (swagger (Some custom_paths_config) (request_to ''/api-docs/spec'') hello_next) = Some 200 \<and>
   swagger (Some custom_paths_config) (request_to ''/swagger'') hello_next = hello_next () \<and>
   swagger (Some custom_paths_config) (request_to ''/swagger/json'') hello_next = hello_next ()"
proof -
  have h: "cfg_path custom_paths_config = Some ''/api-docs'' \<and>
      cfg_specPath custom_paths_config = Some ''/api-docs/spec'' \<and>
      serializable (JObj (selected_options (configured (Some custom_paths_config))))"
    by code_simp
  have e: "cfg_specPath empty_config = None \<and> path (configured (Some empty_config)) = ''/swagger''"
    by code_simp
  from h default_and_custom_paths [of custom_paths_config hello_next]
  have "status_of (swagger (Some custom_paths_config) (request_to ''/api-docs'') hello_next) = Some 200 \<and>
   status_of (swagger (Some custom_paths_config) (request_to ''/api-docs/spec'') hello_next) = Some 200 \<and>
   swagger (Some custom_paths_config) (request_to ''/swagger'') hello_next = hello_next () \<and>
   swagger (Some custom_paths_config) (request_to ''/swagger/json'') hello_next = hello_next ()"
    by blast
  moreover from e default_and_custom_paths [of empty_config hello_next]
  have "specPath (configured (Some empty_config)) = ''/swagger/json''" by simp
  ultimately show ?thesis using e by blast
qed

section \<open>Options that cannot be serialised\<close>

text \<open>
  Claim C9, as amended. When the option object of the configured provider
  (\<^verbatim>\<open>scalarConfig\<close> for \<^verbatim>\<open>scalar\<close>, \<^verbatim>\<open>swaggerOptions\<close> for
  \<^verbatim>\<open>swagger-ui\<close>) contains a circular reference or a BigInt, a request to the UI
  path throws a \<^verbatim>\<open>TypeError\<close> while the page is rendered, and no page is returned.
\<close>

theorem unserializable_options_throw:
  assumes "pathname (req_url req) = path (configured config)"
    and "\<not> serializable (JObj (selected_options (configured config)))"
  shows "swagger config req next = Inl TypeError"
  using assms htmlContent_cases [of "configured config"]
  by (simp add: ui_path_outcome split: sum.splits)

theorem unserializable_options_throw_witness:
  "pathname (req_url (request_to ''/swagger'')) =
     path (configured (Some (empty_config\<lparr>cfg_scalarConfig := Some [(''nested'', JArr [JCyclic])]\<rparr>))) \<and>
   \<not> serializable (JObj (selected_options
     (configured (Some (empty_config\<lparr>cfg_scalarConfig := Some [(''nested'', JArr [JCyclic])]\<rparr>))))) \<and>
   swagger (Some (empty_config\<lparr>cfg_scalarConfig := Some [(''nested'', JArr [JCyclic])]\<rparr>))
     (request_to ''/swagger'') hello_next = Inl TypeError"
proof -
  have h: "pathname (req_url (request_to ''/swagger'')) =
     path (configured (Some (empty_config\<lparr>cfg_scalarConfig := Some [(''nested'', JArr [JCyclic])]\<rparr>))) \<and>
   \<not> serializable (JObj (selected_options
     (configured (Some (empty_config\<lparr>cfg_scalarConfig := Some [(''nested'', JArr [JCyclic])]\<rparr>)))))"
    by code_simp
  with unserializable_options_throw [of "request_to ''/swagger''"
      "Some (empty_config\<lparr>cfg_scalarConfig := Some [(''nested'', JArr [JCyclic])]\<rparr>)" hello_next]
  show ?thesis by blast
qed

text \<open>
  Claim C9 as stated fails: with the default provider, a function in
  \<^verbatim>\<open>scalarConfig\<close> is dropped from the serialised options and a circular
  \<^verbatim>\<open>swaggerOptions\<close> is never serialised; the request to the UI path does not throw
  and the page carries the empty configuration.
\<close>

theorem dropped_options_counterexample:
  \<open>pathname (req_url (request_to ''/swagger'')) = path (configured (Some dropped_options_config)) \<and>
   scalarConfig (configured (Some dropped_options_config)) = [(''onLoaded'', JFunction)] \<and>
   swaggerOptions (configured (Some dropped_options_config)) = [(''self'', JCyclic)] \<and>
   \<not> isl (swagger (Some dropped_options_config) (request_to ''/swagger'') hello_next) \<and>
   map_option (sublist ''data-configuration='{}'></div>'')
     (text_of (swagger (Some dropped_options_config) (request_to ''/swagger'') hello_next)) = Some True\<close>
  by code_simp

section \<open>The theme\<close>

lemma sublist_concat_adjacent:
  assumes "Suc (Suc i) < length segs"
    and "suffix p (segs ! i)" and "segs ! Suc i = v" and "prefix q (segs ! Suc (Suc i))"
  shows "sublist (p @ v @ q) (concat segs)"
proof -
  from assms(2) obtain a where a: "segs ! i = a @ p" by (auto simp: suffix_def)
  from assms(4) obtain c where c: "segs ! Suc (Suc i) = q @ c" by (auto simp: prefix_def)
  from assms(1) have "segs = take i segs @ segs ! i # segs ! Suc i # segs ! Suc (Suc i) # drop (Suc (Suc (Suc i))) segs"
    by (simp add: Cons_nth_drop_Suc Suc_lessD)
  then have "concat segs = concat (take i segs @ (a @ p) # v # (q @ c) # drop (Suc (Suc (Suc i))) segs)"
    using a c assms(3) by simp
  then have "concat segs = (concat (take i segs) @ a) @ (p @ v @ q) @ (c @ concat (drop (Suc (Suc (Suc i))) segs))"
    by simp
  then show ?thesis by (metis sublist_appendI)
qed

lemma swagger_ui_stylesheet:
  \<open>renderSwaggerUI i v t opts d = Inr page \<Longrightarrow>
   sublist (''<link rel="stylesheet" type="text/css" href="https://unpkg.com/swagger-ui-dist@'' @ v @
            ''/swagger-ui.css" />'') page\<close>
  apply (cases "map_throwing swaggerOption_entry opts")
   apply (simp add: renderSwaggerUI_def Let_def)
  apply (simp only: renderSwaggerUI_def Let_def sum.case sum.inject)
  apply (erule subst)
  apply (rule sublist_concat_adjacent [where i = 2])
     apply simp
    apply code_simp
   apply simp
  apply code_simp
  done

lemma renderSwaggerUI_theme:
  "renderSwaggerUI i v t1 opts d = renderSwaggerUI i v t2 opts d"
  by (simp only: renderSwaggerUI_def)

lemma htmlContent_theme: "htmlContent (s\<lparr>theme := t\<rparr>) = htmlContent s"
  using renderSwaggerUI_theme [of _ _ t _ _ "theme s"] by (simp add: htmlContent_def)

lemma middleware_theme: "middleware (s\<lparr>theme := t\<rparr>) = middleware s"
  by (intro ext) (simp add: middleware_def htmlContent_theme Let_def)

lemma configured_theme:
  "\<exists>t'. configured (Some (c\<lparr>cfg_theme := t\<rparr>)) = (configured (Some c))\<lparr>theme := t'\<rparr>"
  by (simp add: configured_def destructure_def default_to_def Let_def)

text \<open>
  Claim C10. Two configurations that differ only in \<^verbatim>\<open>theme\<close> answer every request
  alike and render the same page. For the provider \<^verbatim>\<open>swagger-ui\<close> the page links the
  stylesheet \<^verbatim>\<open>https://unpkg.com/swagger-ui-dist@VERSION/swagger-ui.css\<close> of the
  configured \<^verbatim>\<open>version\<close>, whatever the theme.
\<close>

theorem theme_has_no_effect:
  \<open>swagger (Some (c\<lparr>cfg_theme := t\<rparr>)) req next = swagger (Some c) req next \<and>
   htmlContent (configured (Some (c\<lparr>cfg_theme := t\<rparr>))) = htmlContent (configured (Some c)) \<and>
   (\<forall>page. cfg_provider c = Some SwaggerUI \<and> htmlContent (configured (Some c)) = Inr page \<longrightarrow>
      sublist (''<link rel="stylesheet" type="text/css" href="https://unpkg.com/swagger-ui-dist@'' @
               version (configured (Some c)) @ ''/swagger-ui.css" />'') page)\<close>
proof -
  obtain t' where t': "configured (Some (c\<lparr>cfg_theme := t\<rparr>)) = (configured (Some c))\<lparr>theme := t'\<rparr>"
    using configured_theme by blast
  have a: "swagger (Some (c\<lparr>cfg_theme := t\<rparr>)) req next = swagger (Some c) req next"
    by (simp only: swagger_def t' middleware_theme)
  have b: "htmlContent (configured (Some (c\<lparr>cfg_theme := t\<rparr>))) = htmlContent (configured (Some c))"
    by (simp only: t' htmlContent_theme)
  have c: \<open>sublist (''<link rel="stylesheet" type="text/css" href="https://unpkg.com/swagger-ui-dist@'' @
               version (configured (Some c)) @ ''/swagger-ui.css" />'') page\<close>
    if "cfg_provider c = Some SwaggerUI" "htmlContent (configured (Some c)) = Inr page" for page
  proof -
    from that(1) have "provider (configured (Some c)) = SwaggerUI"
      by (simp add: configured_def destructure_def default_to_def Let_def)
    with that(2) have "renderSwaggerUI (or_object (doc_info (documentation (configured (Some c)))) empty_info)
        (version (configured (Some c))) (theme (configured (Some c)))
        (swaggerOptions (configured (Some c))) (autoDarkMode (configured (Some c))) = Inr page"
      by (simp add: htmlContent_def)
    then show ?thesis by (rule swagger_ui_stylesheet)
  qed
  from a b c show ?thesis by blast
qed

theorem theme_has_no_effect_witness:
  \<open>swagger (Some (themed_config\<lparr>cfg_theme := Some (ThemeString ''https://custom-theme.css'')\<rparr>))
     (request_to ''/swagger'') hello_next =
   swagger (Some themed_config) (request_to ''/swagger'') hello_next \<and>
   (\<exists>page. htmlContent (configured (Some themed_config)) = Inr page \<and>
      sublist ''<link rel="stylesheet" type="text/css" href="https://unpkg.com/swagger-ui-dist@4.18.2/swagger-ui.css" />''
        page)\<close>
proof -
  have v: "cfg_provider themed_config = Some SwaggerUI \<and> version (configured (Some themed_config)) = ''4.18.2''
      \<and> serializable (JObj (selected_options (configured (Some themed_config))))"
    by code_simp
  then obtain page where page: "htmlContent (configured (Some themed_config)) = Inr page"
    using htmlContent_serializable by blast
  with v theme_has_no_effect [of "Some (ThemeString ''https://custom-theme.css'')" themed_config
      "request_to ''/swagger''" hello_next]
  show ?thesis by auto
qed

section \<open>The spec branch on the heap\<close>

lemma allocated_iff: "allocated h a \<longleftrightarrow> a \<in> fst ` set h"
  by (simp add: allocated_def map_of_eq_None_iff)

lemma agrees_iff: "agrees g h \<longleftrightarrow> (\<forall>a. allocated h a \<longrightarrow> map_of g a = map_of h a)"
  by (auto simp: agrees_def list_all_iff allocated_iff)

lemma agrees_refl: "agrees h h"
  by (simp add: agrees_iff)

lemma agrees_allocated: "agrees g h \<Longrightarrow> allocated h a \<Longrightarrow> allocated g a"
  by (simp add: agrees_iff allocated_def)

lemma agrees_trans: "agrees k g \<Longrightarrow> agrees g h \<Longrightarrow> agrees k h"
  by (simp add: agrees_iff allocated_def)

lemma closedD:
  "closed h \<Longrightarrow> map_of h a = Some obj \<Longrightarrow> w \<in> set (fields obj) \<Longrightarrow> valid h w"
  by (force simp: closed_def list_all_iff dest: map_of_SomeD)

lemma le_foldr_max: "a \<in> set xs \<Longrightarrow> a \<le> foldr max xs (0::nat)"
  by (induction xs) auto

lemma fresh_not_allocated: "\<not> allocated h (fresh h)"
proof
  assume "allocated h (fresh h)"
  then have "fresh h \<in> set (map fst h)" by (simp add: allocated_iff)
  then have "fresh h \<le> foldr max (map fst h) 0" by (rule le_foldr_max)
  then show False by (simp add: fresh_def)
qed

lemma alloc_cases:
  assumes "alloc g obj = (b, g')"
  shows "agrees g' g" and "\<not> allocated g b" and "map_of g' b = Some obj"
  using assms fresh_not_allocated [of g]
  by (auto simp: alloc_def agrees_iff)

lemma or_literal_cases:
  assumes "or_literal v obj g = (w, g')"
  shows "agrees g' g"
    and "truthy v \<and> w = v \<or>
         \<not> truthy v \<and> (\<exists>b. w = HRef b \<and> \<not> allocated g b \<and> map_of g' b = Some obj)"
  using assms alloc_cases [of g obj]
  by (auto simp: or_literal_def agrees_refl split: if_splits prod.splits)

lemma get_valid:
  assumes "closed h"
  shows "valid h (get h v k)"
proof (cases "\<exists>a props w. v = HRef a \<and> map_of h a = Some (HObject props) \<and> map_of props k = Some w")
  case True
  then obtain a props w where v: "v = HRef a" and obj: "map_of h a = Some (HObject props)"
    and w: "map_of props k = Some w" by blast
  from w have "w \<in> set (fields (HObject props))"
    by (auto dest: map_of_SomeD intro: rev_image_eqI)
  with assms obj have "valid h w" by (rule closedD)
  with v obj w show ?thesis by (simp add: get_def)
next
  case False
  then have "get h v k = HUndefined"
    by (auto simp: get_def split: hval.splits option.splits hobj.splits)
  then show ?thesis by simp
qed

lemma get_agrees: "agrees g h \<Longrightarrow> valid h v \<Longrightarrow> get g v k = get h v k"
  by (cases v) (auto simp: get_def agrees_iff)

lemma get_optional_valid: "closed h \<Longrightarrow> valid h (get_optional h v k)"
  by (simp add: get_optional_def get_valid)

lemma get_optional_agrees:
  "agrees g h \<Longrightarrow> valid h v \<Longrightarrow> get_optional g v k = get_optional h v k"
  by (simp add: get_optional_def get_agrees)

lemma or_value_valid: "valid h a \<Longrightarrow> valid h b \<Longrightarrow> valid h (or_value a b)"
  by (simp add: or_value_def)

text \<open>
  What is read from a value of a closed heap is the same in every heap that holds the
  objects of that heap unchanged, and addresses outside it on the stack make no difference.
\<close>

lemma snapshot_agrees:
  "closed h \<Longrightarrow> agrees g h \<Longrightarrow> valid h v \<Longrightarrow>
   (\<forall>a. allocated h a \<longrightarrow> (a \<in> set stack' \<longleftrightarrow> a \<in> set stack)) \<Longrightarrow>
   snapshot g stack' v = snapshot h stack v"
proof (induction h stack v arbitrary: stack' rule: snapshot.induct)
  case (8 h stack a)
  from "8.prems" have al: "allocated h a" by simp
  then obtain obj where obj: "map_of h a = Some obj" by (auto simp: allocated_def)
  from al "8.prems"(2) have "map_of g a = map_of h a" by (simp add: agrees_iff)
  with obj have gobj: "map_of g a = Some obj" by simp
  show ?case
  proof (cases "a \<in> set stack")
    case True
    with al "8.prems" show ?thesis by simp
  next
    case False
    with al "8.prems" have nin: "a \<notin> set stack'" by simp
    have st: "\<forall>b. allocated h b \<longrightarrow> (b \<in> set (a # stack') \<longleftrightarrow> b \<in> set (a # stack))"
      using "8.prems" by simp
    show ?thesis
    proof (cases obj)
      case (HObject props)
      have "snapshot g (a # stack') (snd kv) = snapshot h (a # stack) (snd kv)"
        if "kv \<in> set props" for kv
      proof -
        from that HObject have "snd kv \<in> set (fields obj)" by simp
        with "8.prems"(1) obj have "valid h (snd kv)" by (rule closedD)
        with "8.prems"(1,2) st show ?thesis
          by (intro "8.IH"(1) [OF False obj HObject that])
      qed
      with False nin obj gobj HObject show ?thesis by simp
    next
      case (HArray xs)
      have "snapshot g (a # stack') x = snapshot h (a # stack) x" if "x \<in> set xs" for x
      proof -
        from that HArray have "x \<in> set (fields obj)" by simp
        with "8.prems"(1) obj have "valid h x" by (rule closedD)
        with "8.prems"(1,2) st show ?thesis
          by (intro "8.IH"(2) [OF False obj HArray that])
      qed
      with False nin obj gobj HArray show ?thesis by simp
    qed
  qed
qed simp_all

lemma or_literal_snapshot:
  assumes h: "closed h" and g: "agrees g h" and v: "valid h v"
    and lit: "or_literal v obj g = (w, g')" and empty: "fields obj = []"
    and G: "agrees G g'" and S: "\<forall>a\<in>set S. \<not> allocated g' a"
  shows "snapshot G S w = or_tree h v (case obj of HObject props \<Rightarrow> JObj [] | HArray xs \<Rightarrow> JArr [])"
proof -
  from or_literal_cases [OF lit] have g': "agrees g' g"
    and c: "truthy v \<and> w = v \<or>
         \<not> truthy v \<and> (\<exists>b. w = HRef b \<and> \<not> allocated g b \<and> map_of g' b = Some obj)"
    by blast+
  from G g' g have Gh: "agrees G h" by (blast intro: agrees_trans)
  from c show ?thesis
  proof
    assume t: "truthy v \<and> w = v"
    have "\<forall>a. allocated h a \<longrightarrow> (a \<in> set S \<longleftrightarrow> a \<in> set [])"
      using S g g' by (auto dest: agrees_allocated)
    with h Gh v have "snapshot G S v = snapshot h [] v" by (rule snapshot_agrees)
    with t show ?thesis by (simp add: or_tree_def)
  next
    assume f: "\<not> truthy v \<and> (\<exists>b. w = HRef b \<and> \<not> allocated g b \<and> map_of g' b = Some obj)"
    then obtain b where w: "w = HRef b" and b: "map_of g' b = Some obj" by blast
    from b have ab: "allocated g' b" by (simp add: allocated_def)
    with G b have "map_of G b = Some obj" by (simp add: agrees_iff)
    moreover from ab S have "b \<notin> set S" by blast
    ultimately show ?thesis using f w empty
      by (cases obj) (simp_all add: or_tree_def)
  qed
qed

text \<open>
  In every heap that holds the objects of a closed heap \<open>h\<close> unchanged, the spec branch
  answers with the document of \<open>h\<close> and leaves every object as it was.
\<close>

lemma serve_spec_document:
  assumes h: "closed h" and ref: "allocated h ref" and g: "agrees g h"
  shows "fst (serve_spec ref g) = Inr (Fulfilled (json (document h ref)))"
    and "agrees (snd (serve_spec ref g)) g"
proof -
  let ?d = "HRef ref"
  let ?iv = "get h ?d ''info''"
  let ?title = "or_value (get_optional h ?iv ''title'') (HStr ''Vafast API'')"
  let ?description = "or_value (get_optional h ?iv ''description'') (HStr ''API documentation'')"
  let ?version = "or_value (get_optional h ?iv ''version'') (HStr ''1.0.0'')"
  from ref have vd: "valid h ?d" by simp
  have viv: "valid h ?iv" using h by (rule get_valid)
  have vals: "valid h ?title" "valid h ?description" "valid h ?version"
    using h by (simp_all add: or_value_valid get_optional_valid)
  have gd: "get k ?d x = get h ?d x" if "agrees k h" for k x
    using that vd by (rule get_agrees)
  have go: "get_optional g ?iv x = get_optional h ?iv x" for x
    using g viv by (rule get_optional_agrees)
  obtain i g1 where a1: "alloc g (HObject [(''title'', ?title), (''description'', ?description),
      (''version'', ?version)]) = (i, g1)" by fastforce
  from alloc_cases [OF a1] have e1: "agrees g1 g" and ni: "\<not> allocated g i"
    and mi: "map_of g1 i = Some (HObject [(''title'', ?title), (''description'', ?description),
      (''version'', ?version)])" by blast+
  from e1 g have h1: "agrees g1 h" by (rule agrees_trans)
  obtain p g2 where a2: "or_literal (get h ?d ''paths'') (HObject []) g1 = (p, g2)" by fastforce
  from or_literal_cases(1) [OF a2] have e2: "agrees g2 g1" .
  from e2 h1 have h2: "agrees g2 h" by (rule agrees_trans)
  obtain c g3 where a3: "or_literal (get h ?d ''components'') (HObject []) g2 = (c, g3)" by fastforce
  from or_literal_cases(1) [OF a3] have e3: "agrees g3 g2" .
  from e3 h2 have h3: "agrees g3 h" by (rule agrees_trans)
  obtain t g4 where a4: "or_literal (get h ?d ''tags'') (HArray []) g3 = (t, g4)" by fastforce
  from or_literal_cases(1) [OF a4] have e4: "agrees g4 g3" .
  obtain spec g5 where a5: "alloc g4 (HObject [(''openapi'', HStr ''3.0.3''), (''info'', HRef i),
      (''paths'', p), (''components'', c), (''tags'', t)]) = (spec, g5)" by fastforce
  from alloc_cases [OF a5] have e5: "agrees g5 g4" and ns: "\<not> allocated g4 spec"
    and ms: "map_of g5 spec = Some (HObject [(''openapi'', HStr ''3.0.3''), (''info'', HRef i),
      (''paths'', p), (''components'', c), (''tags'', t)])" by blast+
  have run: "createOpenAPISpec_heap ref g = (spec, g5)"
    by (simp add: createOpenAPISpec_heap_def Let_def go gd [OF g] gd [OF h1] gd [OF h2] gd [OF h3]
        a1 a2 a3 a4 a5)
  have e53: "agrees g5 g3" using e5 e4 by (rule agrees_trans)
  have e52: "agrees g5 g2" using e53 e3 by (rule agrees_trans)
  have e51: "agrees g5 g1" using e52 e2 by (rule agrees_trans)
  have e50: "agrees g5 g" using e51 e1 by (rule agrees_trans)
  have h5: "agrees g5 h" using e50 g by (rule agrees_trans)
  have s4: "\<not> allocated k spec" if "agrees g4 k" for k
    using that ns by (blast dest: agrees_allocated)
  have s3: "\<not> allocated g3 spec" using e4 by (rule s4)
  have s2: "\<not> allocated g2 spec" using agrees_trans [OF e4 e3] by (rule s4)
  have s1: "\<not> allocated g1 spec" using agrees_trans [OF agrees_trans [OF e4 e3] e2] by (rule s4)
  have ai: "allocated g1 i" using mi by (simp add: allocated_def)
  with s1 have isp: "i \<noteq> spec" by blast
  from ai e51 mi have m5i: "map_of g5 i = Some (HObject [(''title'', ?title),
      (''description'', ?description), (''version'', ?version)])" by (simp add: agrees_iff)
  have fresh_h: "\<forall>a. allocated h a \<longrightarrow> (a \<in> set [i, spec] \<longleftrightarrow> a \<in> set [])"
    using ni s1 g h1 by (auto dest: agrees_allocated)
  have leaf: "snapshot g5 [i, spec] w = snapshot h [] w" if "valid h w" for w
    using h h5 that fresh_h by (rule snapshot_agrees)
  have info: "snapshot g5 [spec] (HRef i) = JObj [(''title'', snapshot h [] ?title),
      (''description'', snapshot h [] ?description), (''version'', snapshot h [] ?version)]"
    using isp m5i vals by (simp add: leaf)
  have paths: "snapshot g5 [spec] p = or_tree h (get h ?d ''paths'') (JObj [])"
    using or_literal_snapshot [OF h h1 get_valid [OF h] a2 _ e52, of "[spec]"] s2 by simp
  have components: "snapshot g5 [spec] c = or_tree h (get h ?d ''components'') (JObj [])"
    using or_literal_snapshot [OF h h2 get_valid [OF h] a3 _ e53, of "[spec]"] s3 by simp
  have tags: "snapshot g5 [spec] t = or_tree h (get h ?d ''tags'') (JArr [])"
    using or_literal_snapshot [OF h h3 get_valid [OF h] a4 _ e5, of "[spec]"] ns by simp
  have "snapshot g5 [] (HRef spec) = document h ref"
    using ms info paths components tags by (simp add: document_def Let_def)
  with run show "fst (serve_spec ref g) = Inr (Fulfilled (json (document h ref)))"
    by (simp add: serve_spec_def Promise_resolve_def)
  from run e50 show "agrees (snd (serve_spec ref g)) g"
    by (simp add: serve_spec_def)
qed

text \<open>
  The builder on trees is the builder on the heap: when the documentation object has the
  shape of its interface, the document served from the heap is \<open>createOpenAPISpec\<close> of the
  fragment read from the heap, and the middleware configured with that fragment answers a
  request to the spec path as the spec branch on the heap does.
\<close>

lemma string_or_value:
  "string_or_absent v \<Longrightarrow>
   snapshot h [] (or_value v (HStr dflt)) =
     JStr (or_string (case v of HStr s \<Rightarrow> Some s | _ \<Rightarrow> None) dflt)"
  by (cases v) (simp_all add: or_value_def or_string_def)

lemma object_or_tree:
  "object_or_absent h v \<Longrightarrow>
   or_tree h v (JObj []) =
     JObj (or_object (case snapshot h [] v of JObj kvs \<Rightarrow> Some kvs | _ \<Rightarrow> None) [])"
  by (cases v) (auto simp: or_tree_def or_object_def split: option.splits hobj.splits)

lemma array_or_tree:
  "array_or_absent h v \<Longrightarrow>
   or_tree h v (JArr []) =
     JArr (or_object (case snapshot h [] v of JArr xs \<Rightarrow> Some xs | _ \<Rightarrow> None) [])"
  by (cases v) (auto simp: or_tree_def or_object_def split: option.splits hobj.splits)

lemma info_field_fragment:
  "object_or_absent h (get h (HRef ref) ''info'') \<Longrightarrow>
   info_field f (fragment h ref) =
     (case get h (HRef ref) ''info'' of
        HRef i \<Rightarrow> f \<lparr>info_title = string_field h (HRef i) ''title'',
                      info_description = string_field h (HRef i) ''description'',
                      info_version = string_field h (HRef i) ''version''\<rparr>
      | _ \<Rightarrow> None)"
  by (cases "get h (HRef ref) ''info''") (simp_all add: info_field_def fragment_def Let_def)

lemma document_refines:
  assumes "well_typed h ref"
  shows "document h ref = createOpenAPISpec (fragment h ref)"
proof -
  let ?info = "get h (HRef ref) ''info''"
  from assms have oi: "object_or_absent h ?info"
    and s: "string_or_absent (get_optional h ?info ''title'')"
      "string_or_absent (get_optional h ?info ''description'')"
      "string_or_absent (get_optional h ?info ''version'')"
    and t: "array_or_absent h (get h (HRef ref) ''tags'')"
    and c: "object_or_absent h (get h (HRef ref) ''components'')"
    and p: "object_or_absent h (get h (HRef ref) ''paths'')"
    by (simp_all add: well_typed_def Let_def)
  have f: "info_field info_title (fragment h ref) =
        (case get_optional h ?info ''title'' of HStr s \<Rightarrow> Some s | _ \<Rightarrow> None)"
      "info_field info_description (fragment h ref) =
        (case get_optional h ?info ''description'' of HStr s \<Rightarrow> Some s | _ \<Rightarrow> None)"
      "info_field info_version (fragment h ref) =
        (case get_optional h ?info ''version'' of HStr s \<Rightarrow> Some s | _ \<Rightarrow> None)"
    using oi by (cases ?info; simp add: info_field_fragment string_field_def get_optional_def)+
  have d: "doc_paths (fragment h ref) =
        (case snapshot h [] (get h (HRef ref) ''paths'') of JObj kvs \<Rightarrow> Some kvs | _ \<Rightarrow> None)"
      "doc_components (fragment h ref) =
        (case snapshot h [] (get h (HRef ref) ''components'') of JObj kvs \<Rightarrow> Some kvs | _ \<Rightarrow> None)"
      "doc_tags (fragment h ref) =
        (case snapshot h [] (get h (HRef ref) ''tags'') of JArr xs \<Rightarrow> Some xs | _ \<Rightarrow> None)"
    by (simp_all add: fragment_def Let_def)
  show ?thesis
    by (simp add: document_def createOpenAPISpec_def Let_def f d
        string_or_value [OF s(1)] string_or_value [OF s(2)] string_or_value [OF s(3)]
        object_or_tree [OF p] object_or_tree [OF c] array_or_tree [OF t])
qed

lemma middleware_refines_serve_spec:
  assumes "closed h" and "allocated h ref" and "well_typed h ref" and "agrees g h"
    and "documentation s = fragment h ref"
    and "pathname (req_url req) = specPath s" and "pathname (req_url req) \<noteq> path s"
  shows "middleware s req next = fst (serve_spec ref g)"
  using assms
  by (simp add: middleware_def Let_def Promise_resolve_def serve_spec_document(1) document_refines)

text \<open>
  The spec branch reads the fragment at every request: after an assignment to the title of
  the documentation object, the next answer is another one.
\<close>

lemma serve_spec_reads_the_heap:
  "fst (serve_spec 1 (store sample_heap 2 (HObject [(''title'', HStr ''Renamed'')]))) \<noteq>
   fst (serve_spec 1 sample_heap)"
  by code_simp

text \<open>
  Claim C8. Let \<open>h\<close> hold the documentation object and all that it refers to. In every heap
  \<open>g\<close> in which these objects are as in \<open>h\<close>, whatever else \<open>g\<close> holds, a request served by
  the spec branch changes no object of \<open>g\<close> (it only allocates new ones), its answer is the
  one given in \<open>h\<close> alone, and the same request served again in the heap it leaves gets an
  equal answer: the document depends on the documentation fragment and on nothing else
  that is mutable.
\<close>

theorem spec_served_from_fragment_only:
  assumes "closed h" and "allocated h ref" and "agrees g h"
  shows "agrees (snd (serve_spec ref g)) g \<and>
    fst (serve_spec ref g) = fst (serve_spec ref h) \<and>
    fst (serve_spec ref (snd (serve_spec ref g))) = fst (serve_spec ref g)"
proof -
  note doc = serve_spec_document [OF assms(1,2)]
  from doc(2) [OF assms(3)] have 1: "agrees (snd (serve_spec ref g)) g" .
  from doc(1) [OF assms(3)] doc(1) [OF agrees_refl]
  have 2: "fst (serve_spec ref g) = fst (serve_spec ref h)" by simp
  from 1 assms(3) have "agrees (snd (serve_spec ref g)) h" by (rule agrees_trans)
  from doc(1) [OF this] doc(1) [OF assms(3)]
  have 3: "fst (serve_spec ref (snd (serve_spec ref g))) = fst (serve_spec ref g)" by simp
  from 1 2 3 show ?thesis by blast
qed

theorem spec_served_from_fragment_only_witness:
  "closed sample_heap \<and> allocated sample_heap 1 \<and> agrees busy_heap sample_heap \<and>
   agrees (snd (serve_spec 1 busy_heap)) busy_heap \<and>
   fst (serve_spec 1 busy_heap) = fst (serve_spec 1 sample_heap) \<and>
   fst (serve_spec 1 (snd (serve_spec 1 busy_heap))) = fst (serve_spec 1 busy_heap)"
proof -
  have h: "closed sample_heap" "allocated sample_heap 1" "agrees busy_heap sample_heap"
    by code_simp+
  from spec_served_from_fragment_only [OF h] h show ?thesis by blast
qed

end
